theory Spec2Isabelle
  imports Complex_Main
begin

section \<open>Data model\<close>

text \<open>
  JavaScript strings are modelled as \<open>string\<close>; a \<open>char\<close> stands for one code
  unit in the Latin-1 range.  \<open>Date.now()\<close> is an \<open>int\<close> of milliseconds passed
  in by the caller.
\<close>

datatype CaptureType = TEXT | HTML | MARKDOWN | SCREENSHOT | FULLPAGE

fun CaptureType_value :: "CaptureType \<Rightarrow> string" where
  "CaptureType_value TEXT = ''text''"
| "CaptureType_value HTML = ''html''"
| "CaptureType_value MARKDOWN = ''markdown''"
| "CaptureType_value SCREENSHOT = ''screenshot''"
| "CaptureType_value FULLPAGE = ''fullpage''"

text \<open>A value in a metadata object: a string or a number.\<close>

datatype json_value = JString string | JNumber int

text \<open>\<open>interface CapturedContent\<close> of \<open>lib/capture.ts\<close>; the fields carry the prefix
  \<open>cc_\<close>.  A metadata object is a list of key/value pairs in which the first entry
  for a key is the one a lookup finds.\<close>

record CapturedContent =
  cc_type :: CaptureType
  cc_content :: string
  cc_title :: string
  cc_url :: string
  cc_timestamp :: int
  cc_metadata :: "(string \<times> json_value) list"

datatype MessageType =
    clickExtIcon | changeTheme | changeLocale | contentScriptLoaded | sidePanelLoaded
  | capturedSelection | requestTextSelection | requestCapture | captureScreenshot
  | requestScreenshotPermission | testToasts

fun MessageType_value :: "MessageType \<Rightarrow> string" where
  "MessageType_value clickExtIcon = ''clickExtIcon''"
| "MessageType_value changeTheme = ''changeTheme''"
| "MessageType_value changeLocale = ''changeLocale''"
| "MessageType_value contentScriptLoaded = ''contentScriptLoaded''"
| "MessageType_value sidePanelLoaded = ''sidePanelLoaded''"
| "MessageType_value capturedSelection = ''capturedSelection''"
| "MessageType_value requestTextSelection = ''requestTextSelection''"
| "MessageType_value requestCapture = ''requestCapture''"
| "MessageType_value captureScreenshot = ''captureScreenshot''"
| "MessageType_value requestScreenshotPermission = ''requestScreenshotPermission''"
| "MessageType_value testToasts = ''testToasts''"

datatype MessageFrom = contentScript | background | popUp | sidePanel

text \<open>\<open>class ExtMessage\<close> of \<open>entrypoints/types.ts\<close>: \<open>content\<close>, \<open>from\<close> and
  \<open>metadata\<close> are optional.\<close>

record ExtMessage =
  messageType :: MessageType
  sender :: "MessageFrom option"
  content :: "string option"
  metadata :: "(string \<times> json_value) list option"

text \<open>The whitespace class \<open>\s\<close> of a JavaScript regular expression, on Latin-1.\<close>

definition js_space :: "char \<Rightarrow> bool" where
  "js_space c \<longleftrightarrow>
     c = CHR 0x09 \<or> c = CHR 0x0A \<or> c = CHR 0x0B \<or> c = CHR 0x0C \<or> c = CHR 0x0D
     \<or> c = CHR 0x20 \<or> c = CHR 0xA0"

text \<open>\<open>s.replace(/\s+/g, '')\<close> deletes every whitespace character.\<close>

definition strip_spaces :: "string \<Rightarrow> string" where
  "strip_spaces s = filter (\<lambda>c. \<not> js_space c) s"

text \<open>\<open>s.trim()\<close>.\<close>

definition trim :: "string \<Rightarrow> string" where
  "trim s = rev (dropWhile js_space (rev (dropWhile js_space s)))"

section \<open>Dedup filters\<close>

subsection \<open>\<open>captureTracker\<close> (page side, \<open>lib/capture.ts\<close>)\<close>

definition captureTracker_deduplicationWindow :: int where
  "captureTracker_deduplicationWindow = 10000"

definition getContentHash :: "CapturedContent \<Rightarrow> string" where
  "getContentHash c =
     (let contentSample = strip_spaces (take 100 (cc_content c))
      in CaptureType_value (cc_type c) @ ''-'' @ cc_url c @ ''-'' @ contentSample)"

definition captureTracker_cleanup :: "int \<Rightarrow> (string \<rightharpoonup> int) \<Rightarrow> (string \<rightharpoonup> int)" where
  "captureTracker_cleanup now recent =
     (\<lambda>hash. case recent hash of
        None \<Rightarrow> None
      | Some timestamp \<Rightarrow>
          if now - timestamp > captureTracker_deduplicationWindow then None else Some timestamp)"

text \<open>\<open>isDuplicate\<close> returns its answer together with the updated \<open>recentCaptures\<close> map.\<close>

definition captureTracker_isDuplicate ::
  "CapturedContent \<Rightarrow> int \<Rightarrow> (string \<rightharpoonup> int) \<Rightarrow> bool \<times> (string \<rightharpoonup> int)" where
  "captureTracker_isDuplicate c now recent =
     (let hash = getContentHash c;
          cleaned = captureTracker_cleanup now recent
      in case cleaned hash of
           Some timestamp \<Rightarrow> (now - timestamp < captureTracker_deduplicationWindow, cleaned)
         | None \<Rightarrow> (False, cleaned(hash \<mapsto> now)))"

subsection \<open>\<open>messageDeduplication\<close> (background)\<close>

definition messageDeduplication_deduplicationWindow :: int where
  "messageDeduplication_deduplicationWindow = 5000"

text \<open>The decimal digits of a natural number and of an integer, as a template string
  prints them.\<close>

function decimal :: "nat \<Rightarrow> string" where
  "decimal n = (if n < 10 then [''0123456789'' ! n]
                else decimal (n div 10) @ [''0123456789'' ! (n mod 10)])"
  by pat_completeness auto
termination
  by (relation "measure (\<lambda>n. n)") auto

definition number_to_string :: "int \<Rightarrow> string" where
  "number_to_string i = (if i < 0 then CHR ''-'' # decimal (nat (- i)) else decimal (nat i))"

text \<open>\<open>${message.metadata?.type || ''}\<close>: a missing entry, the empty string and the
  number 0 give the empty string; another number is printed.\<close>

definition metadata_type :: "ExtMessage \<Rightarrow> string" where
  "metadata_type m =
     (case metadata m of
        None \<Rightarrow> ''''
      | Some md \<Rightarrow>
          (case map_of md ''type'' of
             None \<Rightarrow> ''''
           | Some (JString t) \<Rightarrow> t
           | Some (JNumber i) \<Rightarrow> if i = 0 then '''' else number_to_string i))"

definition getMessageHash :: "ExtMessage \<Rightarrow> string" where
  "getMessageHash m =
     (let contentSample = (case content m of
                             None \<Rightarrow> ''''
                           | Some c \<Rightarrow> if c = '''' then '''' else strip_spaces (take 100 c))
      in metadata_type m @ ''-'' @ contentSample)"

definition messageDeduplication_cleanup :: "int \<Rightarrow> (string \<rightharpoonup> int) \<Rightarrow> (string \<rightharpoonup> int)" where
  "messageDeduplication_cleanup now recent =
     (\<lambda>hash. case recent hash of
        None \<Rightarrow> None
      | Some timestamp \<Rightarrow>
          if now - timestamp > messageDeduplication_deduplicationWindow then None
          else Some timestamp)"

definition messageDeduplication_isDuplicate ::
  "ExtMessage \<Rightarrow> int \<Rightarrow> (string \<rightharpoonup> int) \<Rightarrow> bool \<times> (string \<rightharpoonup> int)" where
  "messageDeduplication_isDuplicate m now recent =
     (let hash = getMessageHash m;
          cleaned = messageDeduplication_cleanup now recent
      in case cleaned hash of
           Some timestamp \<Rightarrow> (now - timestamp < messageDeduplication_deduplicationWindow, cleaned)
         | None \<Rightarrow> (False, cleaned(hash \<mapsto> now)))"

section \<open>Capture store (background, \<open>storeCapture\<close>)\<close>

definition MAX_RECENT_CAPTURES :: nat where
  "MAX_RECENT_CAPTURES = 100"

text \<open>
  The state the store works on: the value under the key \<open>recentCaptures\<close> of
  \<open>browser.storage.local\<close> (\<open>None\<close> when the key is absent or does not hold an
  array) and the in-memory array \<open>recentCaptures\<close> of the background script.
\<close>

record store_state =
  storage :: "ExtMessage list option"
  recentCaptures :: "ExtMessage list"

text \<open>\<open>Array.isArray(data.recentCaptures) ? data.recentCaptures : []\<close>\<close>

definition existingCaptures :: "ExtMessage list option \<Rightarrow> ExtMessage list" where
  "existingCaptures d = (case d of Some xs \<Rightarrow> xs | None \<Rightarrow> [])"

text \<open>\<open>[message, ...existingCaptures].slice(0, MAX_RECENT_CAPTURES)\<close>\<close>

definition trimmedCaptures :: "ExtMessage \<Rightarrow> ExtMessage list option \<Rightarrow> ExtMessage list" where
  "trimmedCaptures message d = take MAX_RECENT_CAPTURES (message # existingCaptures d)"

text \<open>The fallback of the \<open>catch\<close> branch: \<open>unshift\<close>, then one \<open>pop\<close> when over the cap.\<close>

definition fallback_unshift :: "ExtMessage \<Rightarrow> ExtMessage list \<Rightarrow> ExtMessage list" where
  "fallback_unshift message rc =
     (let rc' = message # rc
      in if length rc' > MAX_RECENT_CAPTURES then butlast rc' else rc')"

text \<open>How the two I/O calls of one \<open>storeCapture\<close> end.\<close>

datatype io_outcome = Get_rejected | Set_rejected | Io_ok

text \<open>One complete read-modify-write cycle of \<open>storeCapture\<close>.\<close>

definition storeCapture :: "ExtMessage \<Rightarrow> io_outcome \<Rightarrow> store_state \<Rightarrow> store_state" where
  "storeCapture message outcome s =
     (case outcome of
        Get_rejected \<Rightarrow> s\<lparr>recentCaptures := fallback_unshift message (recentCaptures s)\<rparr>
      | Set_rejected \<Rightarrow> s
      | Io_ok \<Rightarrow> s\<lparr>storage := Some (trimmedCaptures message (storage s))\<rparr>)"

text \<open>A run of appends, each cycle finishing before the next starts.\<close>

fun storeCaptures :: "(ExtMessage \<times> io_outcome) list \<Rightarrow> store_state \<Rightarrow> store_state" where
  "storeCaptures [] s = s"
| "storeCaptures ((message, outcome) # rest) s = storeCaptures rest (storeCapture message outcome s)"

definition persisted :: "(ExtMessage \<times> io_outcome) list \<Rightarrow> ExtMessage list" where
  "persisted evs = map fst (filter (\<lambda>e. snd e = Io_ok) evs)"

definition mirrored :: "(ExtMessage \<times> io_outcome) list \<Rightarrow> ExtMessage list" where
  "mirrored evs = map fst (filter (\<lambda>e. snd e = Get_rejected) evs)"

definition empty_store :: store_state where
  "empty_store = \<lparr>storage = None, recentCaptures = []\<rparr>"

section \<open>Content classifier (\<open>lib/capture.ts\<close>)\<close>

text \<open>Upper-casing of ASCII letters: how an HTML document forms \<open>tagName\<close>, and the
  case folding of the \<open>i\<close> flag of a regular expression.\<close>

definition ascii_upper :: "char \<Rightarrow> char" where
  "ascii_upper c =
     (case map_of (zip ''abcdefghijklmnopqrstuvwxyz'' ''ABCDEFGHIJKLMNOPQRSTUVWXYZ'') c of
        Some u \<Rightarrow> u
      | None \<Rightarrow> c)"

text \<open>
  A DOM node of the cloned selection, in an HTML document: an element with its namespace,
  local name, attributes and children, a text node, or a comment.  Elements the HTML
  parser creates from HTML tags are in the HTML namespace with a lower-case local name;
  \<open>svg\<close> and MathML elements are in another namespace.
\<close>

datatype namespace = HTML_namespace | Other_namespace

datatype node =
    Element namespace string "(string \<times> string) list" "node list"
  | TextNode string
  | CommentNode string

fun is_element :: "node \<Rightarrow> bool" where
  "is_element (Element ns l a cs) = True"
| "is_element (TextNode x) = False"
| "is_element (CommentNode x) = False"

fun localName :: "node \<Rightarrow> string" where
  "localName (Element ns l a cs) = l"
| "localName (TextNode x) = []"
| "localName (CommentNode x) = []"

text \<open>\<open>tagName\<close>: the name in upper case for an element in the HTML namespace, the name as
  it is for any other element.\<close>

fun tagName :: "node \<Rightarrow> string" where
  "tagName (Element ns l a cs) = (if ns = HTML_namespace then map ascii_upper l else l)"
| "tagName (TextNode x) = []"
| "tagName (CommentNode x) = []"

fun attributes :: "node \<Rightarrow> (string \<times> string) list" where
  "attributes (Element ns l a cs) = a"
| "attributes (TextNode x) = []"
| "attributes (CommentNode x) = []"

text \<open>
  A \<open>Selection\<close>: \<open>rangeCount\<close>, the result of \<open>toString()\<close>, the child nodes of
  \<open>getRangeAt(0).cloneContents()\<close> and the \<open>innerHTML\<close> the browser gives for that
  fragment once it is appended to a wrapper element.
\<close>

record selection =
  rangeCount :: nat
  sel_toString :: string
  cloneContents :: "node list"
  sel_innerHTML :: string

text \<open>The element itself followed by its descendant elements, in document order.\<close>

fun subtree_elements :: "node \<Rightarrow> node list" where
  "subtree_elements (Element ns l a cs) = Element ns l a cs # concat (map subtree_elements cs)"
| "subtree_elements (TextNode x) = []"
| "subtree_elements (CommentNode x) = []"

text \<open>\<open>fragment.querySelectorAll('*')\<close>\<close>

definition querySelectorAll_star :: "node list \<Rightarrow> node list" where
  "querySelectorAll_star fragment = concat (map subtree_elements fragment)"

text \<open>\<open>fragment.querySelectorAll('img, video, canvas, svg, table, iframe')\<close>: a type
  selector written in lower case selects the elements with that local name, in the HTML
  namespace and in any other.\<close>

definition querySelectorAll_special :: "node list \<Rightarrow> node list" where
  "querySelectorAll_special fragment =
     filter (\<lambda>el. localName el \<in>
                   set [''img'', ''video'', ''canvas'', ''svg'', ''table'', ''iframe''])
       (querySelectorAll_star fragment)"

definition htmlElements :: "string list" where
  "htmlElements = [''A'', ''UL'', ''OL'', ''LI'', ''TABLE'', ''IMG'', ''H1'', ''H2'', ''H3'',
     ''H4'', ''H5'', ''H6'', ''STRONG'', ''EM'', ''CODE'']"

definition markdownElements :: "string list" where
  "markdownElements = [''H1'', ''H2'', ''H3'', ''H4'', ''H5'', ''H6'', ''P'', ''UL'', ''OL'',
     ''LI'', ''A'', ''CODE'', ''BLOCKQUOTE'']"

definition shouldUseHTMLCapture :: "selection option \<Rightarrow> bool" where
  "shouldUseHTMLCapture sel =
     (case sel of
        None \<Rightarrow> False
      | Some selection \<Rightarrow>
          if rangeCount selection = 0 then False
          else
            let fragment = cloneContents selection;
                hasFormattedContent =
                  list_ex (\<lambda>node. is_element node \<and>
                      \<not> (tagName node \<in> set [''BR'', ''P'', ''DIV'', ''SPAN''] \<and>
                         attributes node = [])) fragment;
                hasHtmlElements =
                  list_ex (\<lambda>el. tagName el \<in> set htmlElements) (querySelectorAll_star fragment)
            in hasFormattedContent \<or> hasHtmlElements)"

text \<open>\<open>detectCaptureType\<close>, applied to the value of \<open>window.getSelection()\<close>.  The
  quotient of the two element counts is taken in the reals.\<close>

definition detectCaptureType :: "selection option \<Rightarrow> CaptureType option" where
  "detectCaptureType sel =
     (case sel of
        None \<Rightarrow> None
      | Some selection \<Rightarrow>
          if rangeCount selection = 0 \<or> trim (sel_toString selection) = [] then None
          else if shouldUseHTMLCapture (Some selection) then
            let fragment = cloneContents selection;
                hasMarkdownElements =
                  list_ex (\<lambda>el. tagName el \<in> set markdownElements) (querySelectorAll_star fragment);
                totalElements = length (querySelectorAll_star fragment);
                specialElements = length (querySelectorAll_special fragment);
                specialRatio = (if totalElements > 0
                                then real specialElements / real totalElements else 0)
            in if hasMarkdownElements \<and> specialRatio < 0.2 then Some MARKDOWN else Some HTML
          else Some TEXT)"

section \<open>HTML to Markdown (\<open>htmlToMarkdown\<close>)\<close>

text \<open>
  The regular expressions of \<open>htmlToMarkdown\<close> are written with backtracking matcher
  combinators.  A matcher takes the rest of the pattern as a continuation and the input
  at the current position; it answers with the first match in the priority order of a
  JavaScript regular expression.
\<close>

definition line_terminator :: "char \<Rightarrow> bool" where
  "line_terminator c \<longleftrightarrow> c = CHR 0x0A \<or> c = CHR 0x0D"

type_synonym 'r cont = "string \<Rightarrow> 'r option"

text \<open>A literal, case-sensitive.\<close>

fun lit :: "string \<Rightarrow> 'r cont \<Rightarrow> 'r cont" where
  "lit [] k s = k s"
| "lit (p # ps) k [] = None"
| "lit (p # ps) k (c # cs) = (if c = p then lit ps k cs else None)"

text \<open>A literal under the \<open>i\<close> flag.\<close>

fun lit_i :: "string \<Rightarrow> 'r cont \<Rightarrow> 'r cont" where
  "lit_i [] k s = k s"
| "lit_i (p # ps) k [] = None"
| "lit_i (p # ps) k (c # cs) = (if ascii_upper c = ascii_upper p then lit_i ps k cs else None)"

text \<open>\<open>[^>]*\<close>, greedy: the longest run first, then shorter ones.\<close>

fun star_not_gt :: "'r cont \<Rightarrow> 'r cont" where
  "star_not_gt k [] = k []"
| "star_not_gt k (c # cs) =
     (if c \<noteq> CHR ''>''
      then (case star_not_gt k cs of Some r \<Rightarrow> Some r | None \<Rightarrow> k (c # cs))
      else k (c # cs))"

text \<open>\<open>(.*?)\<close>, lazy and captured: the shortest run first; \<open>.\<close> matches no line
  terminator.  The continuation receives the captured text.\<close>

fun lazy_dot :: "(string \<Rightarrow> 'r cont) \<Rightarrow> string \<Rightarrow> 'r cont" where
  "lazy_dot k acc [] = k acc []"
| "lazy_dot k acc (c # cs) =
     (case k acc (c # cs) of
        Some r \<Rightarrow> Some r
      | None \<Rightarrow> if line_terminator c then None else lazy_dot k (acc @ [c]) cs)"

text \<open>\<open>(a|b)\<close> under the \<open>i\<close> flag; the group's text is not used by any replacement.\<close>

definition alt_i :: "string \<Rightarrow> string \<Rightarrow> 'r cont \<Rightarrow> 'r cont" where
  "alt_i a b k s = (case lit_i a k s of Some r \<Rightarrow> Some r | None \<Rightarrow> lit_i b k s)"

text \<open>End of the pattern: the captured groups and the input left after the match.\<close>

definition matched :: "string list \<Rightarrow> (string list \<times> string) cont" where
  "matched groups rest = Some (groups, rest)"

text \<open>\<open>s.replace(rx, repl)\<close> for a regular expression with the \<open>g\<close> flag: the leftmost
  match is replaced and the search goes on behind it; after an empty match one character
  is copied.\<close>

function replace_global ::
  "(string list \<times> string) cont \<Rightarrow> (string list \<Rightarrow> string) \<Rightarrow> string \<Rightarrow> string" where
  "replace_global rx repl [] = (case rx [] of Some (groups, rest) \<Rightarrow> repl groups | None \<Rightarrow> [])"
| "replace_global rx repl (c # cs) =
     (case rx (c # cs) of
        Some (groups, rest) \<Rightarrow>
          repl groups @ (if length rest < length (c # cs) then replace_global rx repl rest
                         else c # replace_global rx repl cs)
      | None \<Rightarrow> c # replace_global rx repl cs)"
  by pat_completeness auto
termination
  by (relation "measure (\<lambda>(rx, repl, s). length s)") auto

definition digit :: "nat \<Rightarrow> char" where
  "digit n = (''0123456789'' ! n)"

text \<open>\<open>/<hN[^>]*>(.*?)<\/hN>/gi\<close>\<close>

definition rx_heading :: "nat \<Rightarrow> (string list \<times> string) cont" where
  "rx_heading n =
     lit_i (''<h'' @ [digit n]) (star_not_gt (lit ''>''
       (lazy_dot (\<lambda>g1. lit_i (''</h'' @ [digit n] @ ''>'') (matched [g1])) [])))"

text \<open>\<open>/<p[^>]*>(.*?)<\/p>/gi\<close>\<close>

definition rx_p :: "(string list \<times> string) cont" where
  "rx_p = lit_i ''<p'' (star_not_gt (lit ''>''
            (lazy_dot (\<lambda>g1. lit_i ''</p>'' (matched [g1])) [])))"

text \<open>\<open>/<a[^>]*href="(.*?)"[^>]*>(.*?)<\/a>/gi\<close>\<close>

definition rx_a :: "(string list \<times> string) cont" where
  "rx_a = lit_i ''<a'' (star_not_gt (lit_i ''href=\"''
            (lazy_dot (\<lambda>g1. lit ''\"'' (star_not_gt (lit ''>''
               (lazy_dot (\<lambda>g2. lit_i ''</a>'' (matched [g1, g2])) [])))) [])))"

text \<open>\<open>/<(strong|b)[^>]*>(.*?)<\/(strong|b)>/gi\<close>; the list holds group 2.\<close>

definition rx_strong :: "(string list \<times> string) cont" where
  "rx_strong = lit ''<'' (alt_i ''strong'' ''b'' (star_not_gt (lit ''>''
       (lazy_dot (\<lambda>g2. lit ''</'' (alt_i ''strong'' ''b'' (lit ''>'' (matched [g2])))) []))))"

text \<open>\<open>/<(em|i)[^>]*>(.*?)<\/(em|i)>/gi\<close>; the list holds group 2.\<close>

definition rx_em :: "(string list \<times> string) cont" where
  "rx_em = lit ''<'' (alt_i ''em'' ''i'' (star_not_gt (lit ''>''
       (lazy_dot (\<lambda>g2. lit ''</'' (alt_i ''em'' ''i'' (lit ''>'' (matched [g2])))) []))))"

text \<open>\<open>/<br[^>]*>/gi\<close>\<close>

definition rx_br :: "(string list \<times> string) cont" where
  "rx_br = lit_i ''<br'' (star_not_gt (lit ''>'' (matched [])))"

text \<open>\<open>/<[^>]*>/g\<close>\<close>

definition rx_tag :: "(string list \<times> string) cont" where
  "rx_tag = lit ''<'' (star_not_gt (lit ''>'' (matched [])))"

definition newline :: string where
  "newline = [CHR 0x0A]"

definition htmlToMarkdown :: "string \<Rightarrow> string" where
  "htmlToMarkdown html =
    (let markdown = html;
         markdown = replace_global (rx_heading 1) (\<lambda>g. ''# '' @ g ! 0 @ newline @ newline) markdown;
         markdown = replace_global (rx_heading 2) (\<lambda>g. ''## '' @ g ! 0 @ newline @ newline) markdown;
         markdown = replace_global (rx_heading 3) (\<lambda>g. ''### '' @ g ! 0 @ newline @ newline) markdown;
         markdown = replace_global (rx_heading 4) (\<lambda>g. ''#### '' @ g ! 0 @ newline @ newline) markdown;
         markdown = replace_global (rx_heading 5) (\<lambda>g. ''##### '' @ g ! 0 @ newline @ newline) markdown;
         markdown = replace_global (rx_heading 6) (\<lambda>g. ''###### '' @ g ! 0 @ newline @ newline) markdown;
         markdown = replace_global rx_p (\<lambda>g. g ! 0 @ newline @ newline) markdown;
         markdown = replace_global rx_a (\<lambda>g. ''['' @ g ! 1 @ '']('' @ g ! 0 @ '')'') markdown;
         markdown = replace_global rx_strong (\<lambda>g. ''**'' @ g ! 0 @ ''**'') markdown;
         markdown = replace_global rx_em (\<lambda>g. ''*'' @ g ! 0 @ ''*'') markdown;
         markdown = replace_global rx_br (\<lambda>g. newline) markdown;
         markdown = replace_global rx_tag (\<lambda>g. []) markdown;
         markdown = replace_global (lit ''&nbsp;'' (matched [])) (\<lambda>g. '' '') markdown;
         markdown = replace_global (lit ''&amp;'' (matched [])) (\<lambda>g. ''&'') markdown;
         markdown = replace_global (lit ''&lt;'' (matched [])) (\<lambda>g. ''<'') markdown;
         markdown = replace_global (lit ''&gt;'' (matched [])) (\<lambda>g. ''>'') markdown;
         markdown = replace_global (lit ''&quot;'' (matched [])) (\<lambda>g. ''\"'') markdown
     in markdown)"




section \<open>Capture extractor (\<open>lib/capture.ts\<close>)\<close>

text \<open>
  What the page shows to the extractor: the value of \<open>window.getSelection()\<close>, title and
  address, the results of \<open>extractPageMetadata()\<close> and \<open>extractSelectionStyles()\<close> (both
  catch their own exceptions), the clock, an exception the DOM raises while the selected
  range is cloned and serialised (if any), and for the full-page capture the first match
  of each selector as a pair of \<open>innerHTML\<close> and \<open>outerHTML\<close>, the document's
  \<open>outerHTML\<close> and an exception raised while the document is traversed (if any).
\<close>

record page =
  getSelection :: "selection option"
  document_title :: string
  location_href :: string
  pageMetadata :: "(string \<times> json_value) list"
  selectionStyles :: "(string \<times> json_value) list"
  date_now :: int
  range_exception :: "string option"
  querySelector :: "string \<Rightarrow> (string \<times> string) option"
  documentElement_outerHTML :: string
  document_exception :: "string option"

text \<open>The effects a capture function has besides its return value.\<close>

datatype effect =
    SendCapturedContent CapturedContent
  | ShowCaptureToast string
  | ShowCustomToast string
  | ShowToast string
  | TrackCapture string int

text \<open>A function that may throw returns \<open>Inl\<close> of the exception's message.\<close>

type_synonym 'a outcome = "string + 'a"

definition no_selection :: "selection option \<Rightarrow> bool" where
  "no_selection sel =
     (case sel of
        None \<Rightarrow> True
      | Some selection \<Rightarrow> rangeCount selection = 0 \<or> trim (sel_toString selection) = [])"

definition captureTextSelection ::
  "bool \<Rightarrow> bool \<Rightarrow> page \<Rightarrow> CapturedContent option \<times> effect list" where
  "captureTextSelection showToast sendMessage pg =
     (case getSelection pg of
        None \<Rightarrow> (None, [])
      | Some selection \<Rightarrow>
          if rangeCount selection = 0 \<or> trim (sel_toString selection) = [] then (None, [])
          else
            let textContent = \<lparr>cc_type = TEXT, cc_content = sel_toString selection,
                   cc_title = document_title pg, cc_url = location_href pg,
                   cc_timestamp = date_now pg,
                   cc_metadata = selectionStyles pg @ pageMetadata pg\<rparr>
            in (Some textContent,
                (if sendMessage then [SendCapturedContent textContent] else []) @
                (if showToast then [ShowCaptureToast ''Text''] else [])))"

definition captureHtmlSelection ::
  "bool \<Rightarrow> bool \<Rightarrow> page \<Rightarrow> (CapturedContent option \<times> effect list) outcome" where
  "captureHtmlSelection showToast sendMessage pg =
     (case getSelection pg of
        None \<Rightarrow> Inr (None, [])
      | Some selection \<Rightarrow>
          if rangeCount selection = 0 \<or> trim (sel_toString selection) = [] then Inr (None, [])
          else
            (case range_exception pg of
               Some e \<Rightarrow> Inl e
             | None \<Rightarrow>
                 let html = sel_innerHTML selection;
                     htmlContent = \<lparr>cc_type = HTML, cc_content = html,
                        cc_title = document_title pg, cc_url = location_href pg,
                        cc_timestamp = date_now pg,
                        cc_metadata = selectionStyles pg @ pageMetadata pg\<rparr>
                 in Inr (Some htmlContent,
                      (if sendMessage then [SendCapturedContent htmlContent] else []) @
                      (if showToast then [ShowCaptureToast ''HTML''] else []))))"

text \<open>\<open>captureMarkdownSelection\<close> calls \<open>captureHtmlSelection(false)\<close>: the second
  parameter \<open>sendMessage\<close> keeps its default \<open>true\<close>.\<close>

definition captureMarkdownSelection ::
  "bool \<Rightarrow> page \<Rightarrow> (CapturedContent option \<times> effect list) outcome" where
  "captureMarkdownSelection showNotification pg =
     (case captureHtmlSelection False True pg of
        Inl e \<Rightarrow> Inl e
      | Inr (None, effs) \<Rightarrow> Inr (None, effs)
      | Inr (Some htmlContent, effs) \<Rightarrow>
          let markdownContent = htmlToMarkdown (cc_content htmlContent);
              capturedContent = \<lparr>cc_type = MARKDOWN, cc_content = markdownContent,
                 cc_title = cc_title htmlContent, cc_url = cc_url htmlContent,
                 cc_timestamp = date_now pg, cc_metadata = cc_metadata htmlContent\<rparr>
          in Inr (Some capturedContent,
               effs @ (if showNotification
                       then [SendCapturedContent capturedContent, ShowCaptureToast ''Markdown'']
                       else [])))"

definition contentSelectors :: "string list" where
  "contentSelectors = [''main'', ''article'', ''#content'', ''.content'', ''#main'', ''.main'',
     ''.post-content'', ''.article-content'', ''div[role=\"main\"]'']"

text \<open>The loop over \<open>contentSelectors\<close>: the first selector whose match has more than 500
  characters of \<open>innerHTML\<close>; the result is the selector and the match's \<open>outerHTML\<close>.\<close>

fun find_contentNode ::
  "(string \<Rightarrow> (string \<times> string) option) \<Rightarrow> string list \<Rightarrow> (string \<times> string) option" where
  "find_contentNode q [] = None"
| "find_contentNode q (selector # rest) =
     (case q selector of
        Some (inner, outer) \<Rightarrow>
          if length inner > 500 then Some (selector, outer) else find_contentNode q rest
      | None \<Rightarrow> find_contentNode q rest)"

text \<open>\<open>captureFullPage\<close> catches what it throws; the time measurements, the date string
  and the user agent it adds to the metadata are left out.\<close>

definition captureFullPage :: "page \<Rightarrow> CapturedContent option \<times> effect list" where
  "captureFullPage pg =
     (case document_exception pg of
        Some e \<Rightarrow> (None, [ShowToast (''Error capturing page: '' @ e)])
      | None \<Rightarrow>
          let contentNode = find_contentNode (querySelector pg) contentSelectors;
              mainContent = (case contentNode of
                               Some (selector, outer) \<Rightarrow> outer
                             | None \<Rightarrow> documentElement_outerHTML pg);
              capturedContent = \<lparr>cc_type = FULLPAGE, cc_content = mainContent,
                 cc_title = document_title pg, cc_url = location_href pg,
                 cc_timestamp = date_now pg,
                 cc_metadata =
                   [(''hasMainContentNode'',
                       JString (if contentNode = None then ''false'' else ''true'')),
                    (''mainContentSelector'',
                       JString (case contentNode of Some (selector, outer) \<Rightarrow> selector
                                | None \<Rightarrow> []))] @ pageMetadata pg\<rparr>
          in (Some capturedContent, []))"

text \<open>How the platform answers a screenshot request: the direct capture of the visible
  tab gives a data URL, or it fails and the display-media fallback gives one, or an
  exception with a message ends the attempt, or nothing ever answers.\<close>

datatype platform_answer =
    VisibleTab string
  | DisplayMedia string
  | PlatformError string
  | NoAnswer

text \<open>The value the promise of \<open>captureScreenshot\<close> resolves to; it never rejects.  With
  no answer the 15 second timer resolves it to null.\<close>

definition captureScreenshot :: "platform_answer \<Rightarrow> page \<Rightarrow> CapturedContent option \<times> effect list" where
  "captureScreenshot answer pg =
     (case answer of
        VisibleTab dataUrl \<Rightarrow>
          (Some \<lparr>cc_type = SCREENSHOT, cc_content = dataUrl, cc_title = document_title pg,
                 cc_url = location_href pg, cc_timestamp = date_now pg,
                 cc_metadata = [(''format'', JString ''png''), (''isBase64'', JString ''true''),
                    (''captureMethod'', JString ''browser-api'')] @ pageMetadata pg\<rparr>,
           [ShowCaptureToast ''Screenshot''])
      | DisplayMedia dataUrl \<Rightarrow>
          (Some \<lparr>cc_type = SCREENSHOT, cc_content = dataUrl, cc_title = document_title pg,
                 cc_url = location_href pg, cc_timestamp = date_now pg,
                 cc_metadata = [(''format'', JString ''png''), (''isBase64'', JString ''true''),
                    (''captureMethod'', JString ''screen-capture-api'')] @ pageMetadata pg\<rparr>,
           [ShowCaptureToast ''Screenshot''])
      | PlatformError e \<Rightarrow> (None, [ShowToast (''Screenshot Failed: '' @ e)])
      | NoAnswer \<Rightarrow> (None, [ShowToast ''Screenshot Capture Failed: The operation timed out'']))"

text \<open>\<open>try { body } catch (error) { handler }\<close>\<close>

definition try_catch :: "'a outcome \<Rightarrow> (string \<Rightarrow> 'a outcome) \<Rightarrow> 'a outcome" where
  "try_catch body handler = (case body of Inl e \<Rightarrow> handler e | Inr v \<Rightarrow> Inr v)"

text \<open>The part of \<open>captureContent\<close> behind the capture itself, for a non-null result.\<close>

definition after_capture :: "bool \<Rightarrow> page \<Rightarrow> CapturedContent \<Rightarrow> effect list" where
  "after_capture showToastNotification pg capturedContent =
     [TrackCapture (getContentHash capturedContent) (date_now pg),
      SendCapturedContent capturedContent] @
     (if showToastNotification then [ShowCustomToast ''Captured''] else [])"

text \<open>\<open>captureContent\<close>.  For \<open>SCREENSHOT\<close> the result is the value its promise
  resolves to, given the platform's answer.\<close>

definition captureContent ::
  "CaptureType \<Rightarrow> bool \<Rightarrow> platform_answer \<Rightarrow> page \<Rightarrow> (CapturedContent option \<times> effect list) outcome" where
  "captureContent type showToastNotification answer pg =
     try_catch
       (if type = SCREENSHOT then
          (case captureScreenshot answer pg of
             (None, effs) \<Rightarrow> Inr (None, effs)
           | (Some screenshot, effs) \<Rightarrow>
               Inr (Some screenshot,
                    effs @ [TrackCapture (getContentHash screenshot) (date_now pg),
                            SendCapturedContent screenshot]))
        else
          (case (case type of
                   TEXT \<Rightarrow> Inr (captureTextSelection False True pg)
                 | HTML \<Rightarrow> captureHtmlSelection False True pg
                 | MARKDOWN \<Rightarrow> captureMarkdownSelection False pg
                 | FULLPAGE \<Rightarrow> Inr (captureFullPage pg)
                 | SCREENSHOT \<Rightarrow> Inr (None, [])) of
             Inl e \<Rightarrow> Inl e
           | Inr (Some capturedContent, effs) \<Rightarrow>
               Inr (Some capturedContent,
                    effs @ after_capture showToastNotification pg capturedContent)
           | Inr (None, effs) \<Rightarrow>
               Inr (None,
                    effs @ (if showToastNotification
                            then [ShowCustomToast (''No '' @ CaptureType_value type @ '' content captured'')]
                            else []))))
       (\<lambda>error. Inr (None, if showToastNotification then [ShowCustomToast ''Capture failed''] else []))"

text \<open>The messages among the effects.\<close>

definition sent :: "effect list \<Rightarrow> CapturedContent list" where
  "sent effs = concat (map (\<lambda>e. case e of SendCapturedContent c \<Rightarrow> [c] | _ \<Rightarrow> []) effs)"

definition toasts :: "effect list \<Rightarrow> effect list" where
  "toasts effs = filter (\<lambda>e. case e of SendCapturedContent c \<Rightarrow> False
                                | TrackCapture h t \<Rightarrow> False | _ \<Rightarrow> True) effs"

section \<open>Sending to the background (\<open>sendCapturedContent\<close>)\<close>

text \<open>The message object \<open>sendCapturedContent\<close> builds.  The entries spread from
  \<open>capturedContent.metadata\<close> come last in the object literal and so win over the four
  written before them.\<close>

definition capture_message :: "CapturedContent \<Rightarrow> ExtMessage" where
  "capture_message capturedContent =
     \<lparr>messageType = capturedSelection, sender = Some contentScript,
      content = Some (cc_content capturedContent),
      metadata = Some (cc_metadata capturedContent @
                       [(''type'', JString (CaptureType_value (cc_type capturedContent))),
                        (''title'', JString (cc_title capturedContent)),
                        (''url'', JString (cc_url capturedContent)),
                        (''timestamp'', JNumber (cc_timestamp capturedContent))])\<rparr>"

text \<open>How one call of \<open>browser.runtime.sendMessage\<close> ends: its promise resolves, its
  promise rejects with a message, or the call itself throws.\<close>

datatype send_result = Resolves | Rejects string | Throws string

datatype send_event =
    Attempt ExtMessage
  | Delay nat
  | SendFailedToast string

text \<open>\<open>attemptSend(retryCount, maxRetries)\<close>; \<open>result k\<close> is how the attempt with
  \<open>retryCount = k\<close> ends.  The events are in the order of time.\<close>

function attemptSend ::
  "CapturedContent \<Rightarrow> (nat \<Rightarrow> send_result) \<Rightarrow> nat \<Rightarrow> nat \<Rightarrow> send_event list" where
  "attemptSend capturedContent result retryCount maxRetries =
     Attempt (capture_message capturedContent) #
     (case result retryCount of
        Resolves \<Rightarrow> []
      | Rejects err \<Rightarrow>
          if retryCount < maxRetries
          then Delay (200 * (retryCount + 1)) #
               attemptSend capturedContent result (retryCount + 1) maxRetries
          else [SendFailedToast (''Failed to send captured content: '' @ err)]
      | Throws err \<Rightarrow>
          if retryCount < maxRetries
          then Delay (200 * (retryCount + 1)) #
               attemptSend capturedContent result (retryCount + 1) maxRetries
          else [SendFailedToast (''Error sending content: '' @ err)])"
  by pat_completeness auto
termination
  by (relation "measure (\<lambda>(c, r, retryCount, maxRetries). maxRetries - retryCount)") auto

definition sendCapturedContent :: "CapturedContent \<Rightarrow> (nat \<Rightarrow> send_result) \<Rightarrow> send_event list" where
  "sendCapturedContent capturedContent result = attemptSend capturedContent result 0 2"

definition attempts :: "send_event list \<Rightarrow> ExtMessage list" where
  "attempts evs = concat (map (\<lambda>e. case e of Attempt m \<Rightarrow> [m] | _ \<Rightarrow> []) evs)"

definition delays :: "send_event list \<Rightarrow> nat list" where
  "delays evs = concat (map (\<lambda>e. case e of Delay d \<Rightarrow> [d] | _ \<Rightarrow> []) evs)"

text \<open>The kinds of the messages that were sent again: every attempt but the first.\<close>

definition retried_kinds :: "send_event list \<Rightarrow> MessageType list" where
  "retried_kinds evs = map messageType (tl (attempts evs))"

text \<open>The effects of a capture function that returned, none if it threw.\<close>

definition effects_of :: "(CapturedContent option \<times> effect list) outcome \<Rightarrow> effect list" where
  "effects_of r = (case r of Inl e \<Rightarrow> [] | Inr (c, effs) \<Rightarrow> effs)"

definition result_of :: "(CapturedContent option \<times> effect list) outcome \<Rightarrow> CapturedContent option" where
  "result_of r = (case r of Inl e \<Rightarrow> None | Inr (c, effs) \<Rightarrow> c)"

section \<open>Background script: message listener and replay\<close>

definition MESSAGE_EXPIRY_TIME :: int where
  "MESSAGE_EXPIRY_TIME = 10000"

text \<open>\<open>message.content?.substring(0, 100) || ''\<close>, without whitespace, cut to 40.\<close>

definition generateMessageId :: "ExtMessage \<Rightarrow> string" where
  "generateMessageId message =
     (let contentSample = (case content message of None \<Rightarrow> [] | Some c \<Rightarrow> take 100 c);
          contentHash = take 40 (strip_spaces contentSample)
      in MessageType_value (messageType message) @ ''-'' @ metadata_type message @ ''-'' @ contentHash)"

definition cleanupProcessedMessages :: "int \<Rightarrow> (string \<rightharpoonup> int) \<Rightarrow> (string \<rightharpoonup> int)" where
  "cleanupProcessedMessages now processed =
     (let expiredBefore = now - MESSAGE_EXPIRY_TIME
      in (\<lambda>id. case processed id of
                  None \<Rightarrow> None
                | Some timestamp \<Rightarrow> if timestamp < expiredBefore then None else Some timestamp))"

text \<open>\<open>isMessageProcessed\<close>; \<open>draw\<close> says whether \<open>Math.random() < 0.1\<close> came out true.\<close>

definition isMessageProcessed ::
  "ExtMessage \<Rightarrow> int \<Rightarrow> bool \<Rightarrow> (string \<rightharpoonup> int) \<Rightarrow> bool \<times> (string \<rightharpoonup> int)" where
  "isMessageProcessed message now draw processed =
     (let messageId = generateMessageId message
      in if processed messageId \<noteq> None then (True, processed)
         else
           let processed1 = processed(messageId \<mapsto> now)
           in (False, if draw then cleanupProcessedMessages now processed1 else processed1))"

text \<open>
  The state of the background script: the two dedup maps, the panel flag, the store, and
  the storage requests that were issued and have not been answered yet.  A
  \<open>storeCapture\<close> call issues a read (\<open>pending_gets\<close>); when the read is answered its
  continuation issues a write of the trimmed list (\<open>pending_sets\<close>).
\<close>

record bg_state =
  processedMessages :: "string \<rightharpoonup> int"
  recentMessages :: "string \<rightharpoonup> int"
  isSidePanelOpen :: bool
  store :: store_state
  pending_gets :: "ExtMessage list"
  pending_sets :: "ExtMessage list list"

definition bg_initial :: bg_state where
  "bg_initial = \<lparr>processedMessages = Map.empty, recentMessages = Map.empty,
     isSidePanelOpen = False, store = empty_store, pending_gets = [], pending_sets = []\<rparr>"

text \<open>A message \<open>sendToSidePanel\<close> is to send, with the delay of its timer.\<close>

datatype panel_send = SendToSidePanel nat ExtMessage

text \<open>The synchronous part of \<open>storeCapture\<close>: the read is issued.\<close>

definition storeCapture_issue :: "ExtMessage \<Rightarrow> bg_state \<Rightarrow> bg_state" where
  "storeCapture_issue message s = s\<lparr>pending_gets := pending_gets s @ [message]\<rparr>"

text \<open>\<open>recentCaptures.forEach((capture, index) => setTimeout(..., index * 100))\<close> over the
  in-memory array.\<close>

definition sendAllCapturesToSidePanel :: "bg_state \<Rightarrow> panel_send list" where
  "sendAllCapturesToSidePanel s =
     map (\<lambda>(index, capture). SendToSidePanel (index * 100) capture)
       (enumerate 0 (recentCaptures (store s)))"

definition ensurePanelOpenAndSendMessage :: "ExtMessage \<Rightarrow> bg_state \<Rightarrow> bg_state \<times> panel_send list" where
  "ensurePanelOpenAndSendMessage message s =
     (storeCapture_issue message s,
      if isSidePanelOpen s then [SendToSidePanel 0 message] else [])"

text \<open>The listener of \<open>browser.runtime.onMessage\<close>, for the message kinds that touch the
  store or the panel; \<open>draw1\<close> and \<open>draw2\<close> are its two random draws.\<close>

definition onMessage ::
  "ExtMessage \<Rightarrow> int \<Rightarrow> bool \<Rightarrow> bool \<Rightarrow> bg_state \<Rightarrow> bg_state \<times> panel_send list" where
  "onMessage message now draw1 draw2 s =
     (let messageId = generateMessageId message;
          (dup, processed1) = isMessageProcessed message now draw1 (processedMessages s)
      in if dup then (s, [])
         else
           let processed2 = processed1(messageId \<mapsto> now);
               processed3 = (if draw2 then cleanupProcessedMessages now processed2 else processed2);
               s1 = s\<lparr>processedMessages := processed3\<rparr>
           in if messageType message = sidePanelLoaded then
                (let s2 = s1\<lparr>isSidePanelOpen := True\<rparr> in (s2, sendAllCapturesToSidePanel s2))
              else if messageType message = capturedSelection then
                (if metadata_type message \<noteq> [] then
                   (let (d, recent') = messageDeduplication_isDuplicate message now (recentMessages s1);
                        s2 = s1\<lparr>recentMessages := recent'\<rparr>
                    in if d then (s2, [])
                       else ensurePanelOpenAndSendMessage message (storeCapture_issue message s2))
                 else ensurePanelOpenAndSendMessage message (storeCapture_issue message s1))
              else (s1, []))"

text \<open>The oldest pending read is answered.\<close>

definition get_settles :: "bool \<Rightarrow> bg_state \<Rightarrow> bg_state" where
  "get_settles ok s =
     (case pending_gets s of
        [] \<Rightarrow> s
      | message # rest \<Rightarrow>
          if ok then
            s\<lparr>pending_gets := rest,
              pending_sets := pending_sets s @ [trimmedCaptures message (storage (store s))]\<rparr>
          else
            s\<lparr>pending_gets := rest,
              store := (store s)\<lparr>recentCaptures :=
                          fallback_unshift message (recentCaptures (store s))\<rparr>\<rparr>)"

text \<open>The oldest pending write is answered.\<close>

definition set_settles :: "bool \<Rightarrow> bg_state \<Rightarrow> bg_state" where
  "set_settles ok s =
     (case pending_sets s of
        [] \<Rightarrow> s
      | xs # rest \<Rightarrow>
          if ok then s\<lparr>pending_sets := rest, store := (store s)\<lparr>storage := Some xs\<rparr>\<rparr>
          else s\<lparr>pending_sets := rest\<rparr>)"

datatype bg_event =
    Message ExtMessage int bool bool
  | GetSettles bool
  | SetSettles bool

fun bg_step :: "bg_event \<Rightarrow> bg_state \<Rightarrow> bg_state \<times> panel_send list" where
  "bg_step (Message message now draw1 draw2) s = onMessage message now draw1 draw2 s"
| "bg_step (GetSettles ok) s = (get_settles ok s, [])"
| "bg_step (SetSettles ok) s = (set_settles ok s, [])"

text \<open>A run of events; the sends to the panel are collected in order.\<close>

fun bg_run :: "bg_event list \<Rightarrow> bg_state \<Rightarrow> bg_state \<times> panel_send list" where
  "bg_run [] s = (s, [])"
| "bg_run (e # es) s =
     (let (s1, out1) = bg_step e s; (s2, out2) = bg_run es s1 in (s2, out1 @ out2))"

section \<open>The screenshot guard (\<open>handleScreenshotCapture\<close>)\<close>

definition SCREENSHOT_COOLDOWN :: int where
  "SCREENSHOT_COOLDOWN = 1000"

text \<open>
  The three module variables, the armed 15 second timers (by capture id, with the time
  they fire) and the capture ids whose \<open>await capturePromise\<close> has not returned.
\<close>

record shot_state =
  activeScreenshotCapture :: bool
  lastScreenshotTime :: int
  screenshotCaptureCounter :: nat
  armed :: "(nat \<times> int) list"
  awaiting :: "nat list"

definition shot_initial :: shot_state where
  "shot_initial = \<lparr>activeScreenshotCapture = False, lastScreenshotTime = 0,
     screenshotCaptureCounter = 0, armed = [], awaiting = []\<rparr>"

datatype shot_report =
    IgnoredInCooldown
  | AlreadyInProgress
  | Started nat
  | TimedOut nat
  | Settled nat
  | Nothing

text \<open>\<open>handleScreenshotCapture\<close> up to its \<open>await\<close>.\<close>

definition handleScreenshotCapture :: "int \<Rightarrow> shot_state \<Rightarrow> shot_report \<times> shot_state" where
  "handleScreenshotCapture now s =
     (let timeSinceLastCapture = now - lastScreenshotTime s
      in if timeSinceLastCapture < SCREENSHOT_COOLDOWN then (IgnoredInCooldown, s)
         else if activeScreenshotCapture s then (AlreadyInProgress, s)
         else
           let captureId = screenshotCaptureCounter s + 1
           in (Started captureId,
               s\<lparr>activeScreenshotCapture := True, lastScreenshotTime := now,
                 screenshotCaptureCounter := captureId,
                 armed := (captureId, now + 15000) # armed s,
                 awaiting := captureId # awaiting s\<rparr>))"

text \<open>The callback of the 15 second timer of capture \<open>captureId\<close>, if still armed.\<close>

definition timer_fires :: "nat \<Rightarrow> shot_state \<Rightarrow> shot_report \<times> shot_state" where
  "timer_fires captureId s =
     (if captureId \<in> fst ` set (armed s)
      then (TimedOut captureId,
            s\<lparr>activeScreenshotCapture := False,
              armed := filter (\<lambda>t. fst t \<noteq> captureId) (armed s)\<rparr>)
      else (Nothing, s))"

text \<open>The rest of \<open>handleScreenshotCapture\<close> behind its \<open>await\<close>: \<open>clearTimeout\<close>, and
  in the \<open>finally\<close> block the flag is reset.\<close>

definition capture_settles :: "nat \<Rightarrow> shot_state \<Rightarrow> shot_report \<times> shot_state" where
  "capture_settles captureId s =
     (if captureId \<in> set (awaiting s)
      then (Settled captureId,
            s\<lparr>activeScreenshotCapture := False,
              armed := filter (\<lambda>t. fst t \<noteq> captureId) (armed s),
              awaiting := filter (\<lambda>i. i \<noteq> captureId) (awaiting s)\<rparr>)
      else (Nothing, s))"

text \<open>
  The events of the guard: a call of \<open>handleScreenshotCapture\<close> at a time, the firing of
  the timer of a capture, and the return of its \<open>await\<close>.
\<close>

datatype shot_event = HandlerCalled int | TimerFires nat | CaptureSettles nat

fun shot_step :: "shot_event \<Rightarrow> shot_state \<Rightarrow> shot_report \<times> shot_state" where
  "shot_step (HandlerCalled now) s = handleScreenshotCapture now s"
| "shot_step (TimerFires captureId) s = timer_fires captureId s"
| "shot_step (CaptureSettles captureId) s = capture_settles captureId s"

fun shot_run :: "shot_event list \<Rightarrow> shot_state \<Rightarrow> shot_report list \<times> shot_state" where
  "shot_run [] s = ([], s)"
| "shot_run (e # es) s =
     (let (r, s1) = shot_step e s; (rs, s2) = shot_run es s1 in (r # rs, s2))"

section \<open>Screenshot triggers (content script)\<close>

text \<open>
  No function of the content script calls \<open>handleScreenshotCapture\<close>.  A screenshot is
  requested by the keyboard shortcut Ctrl+Shift+P and by a \<open>requestCapture\<close> message with
  content \<open>screenshot\<close> (sent by the capture buttons of the side panel); both call
  \<open>captureContent(CaptureType.SCREENSHOT)\<close> themselves.
\<close>

record KeyboardEvent =
  ctrlKey :: bool
  shiftKey :: bool
  event_key :: string

definition ascii_lower :: "char \<Rightarrow> char" where
  "ascii_lower c =
     (case map_of (zip ''ABCDEFGHIJKLMNOPQRSTUVWXYZ'' ''abcdefghijklmnopqrstuvwxyz'') c of
        Some l \<Rightarrow> l
      | None \<Rightarrow> c)"

definition toLowerCase :: "string \<Rightarrow> string" where
  "toLowerCase str = map ascii_lower str"

text \<open>\<open>handleKeyboardShortcut\<close>: the calls of \<open>captureContent\<close> it makes, each with the
  capture type and the default \<open>showToastNotification = true\<close>, in the order of its five
  \<open>if\<close> statements.\<close>

definition handleKeyboardShortcut :: "KeyboardEvent \<Rightarrow> (CaptureType \<times> bool) list" where
  "handleKeyboardShortcut event =
     (if ctrlKey event \<and> shiftKey event \<and> toLowerCase (event_key event) = ''s''
      then [(TEXT, True)] else []) @
     (if ctrlKey event \<and> shiftKey event \<and> toLowerCase (event_key event) = ''h''
      then [(HTML, True)] else []) @
     (if ctrlKey event \<and> shiftKey event \<and> toLowerCase (event_key event) = ''m''
      then [(MARKDOWN, True)] else []) @
     (if ctrlKey event \<and> shiftKey event \<and> toLowerCase (event_key event) = ''f''
      then [(FULLPAGE, True)] else []) @
     (if ctrlKey event \<and> shiftKey event \<and> toLowerCase (event_key event) = ''p''
      then [(SCREENSHOT, True)] else [])"

text \<open>The listener the content script adds to \<open>browser.runtime.onMessage\<close>: the calls of
  \<open>captureContent\<close> it makes.\<close>

definition content_onMessage :: "ExtMessage \<Rightarrow> (CaptureType \<times> bool) list" where
  "content_onMessage message =
     (if messageType message = requestTextSelection then [(TEXT, False)]
      else if messageType message = requestCapture then
        (let captureTypeStr = content message;
             captureType =
               (if captureTypeStr = Some ''screenshot'' then SCREENSHOT
                else if captureTypeStr = Some ''html'' then HTML
                else if captureTypeStr = Some ''markdown'' then MARKDOWN
                else if captureTypeStr = Some ''fullpage'' then FULLPAGE
                else TEXT)
         in [(captureType, True)])
      else [])"

text \<open>
  The screenshot attempts of a page: the variables of the guard, and the calls of
  \<open>captureScreenshot\<close> whose promise has not resolved yet, each with a number and the time
  at which its own 15 second timer fires.
\<close>

record screenshot_pipeline =
  guard :: shot_state
  in_flight :: "(nat \<times> int) list"
  attempts_started :: nat

definition pipeline_initial :: screenshot_pipeline where
  "pipeline_initial = \<lparr>guard = shot_initial, in_flight = [], attempts_started = 0\<rparr>"

datatype pipeline_report =
    AttemptStarted nat
  | AttemptResolved nat "CapturedContent option" "effect list"

text \<open>The calls of \<open>captureContent\<close> of one trigger, made at time \<open>now\<close>: a call with type
  \<open>SCREENSHOT\<close> calls \<open>captureScreenshot\<close>, which arms its timer and starts the capture;
  the other types capture synchronously and leave the screenshot attempts as they are.\<close>

fun start_captures ::
  "int \<Rightarrow> (CaptureType \<times> bool) list \<Rightarrow> screenshot_pipeline \<Rightarrow>
     pipeline_report list \<times> screenshot_pipeline" where
  "start_captures now [] p = ([], p)"
| "start_captures now (call # calls) p =
     (if fst call = SCREENSHOT then
        (let n = attempts_started p + 1;
             (reports, p1) = start_captures now calls
                (p\<lparr>in_flight := (n, now + 15000) # in_flight p, attempts_started := n\<rparr>)
         in (AttemptStarted n # reports, p1))
      else start_captures now calls p)"

text \<open>The promise of attempt \<open>n\<close> resolves: by the platform's answer, or, with no answer,
  by its timer.  The result and the effects are those of \<open>captureContent\<close>.\<close>

definition attempt_resolves ::
  "page \<Rightarrow> nat \<Rightarrow> platform_answer \<Rightarrow> screenshot_pipeline \<Rightarrow>
     pipeline_report list \<times> screenshot_pipeline" where
  "attempt_resolves pg n answer p =
     (if n \<in> fst ` set (in_flight p)
      then ([AttemptResolved n (result_of (captureContent SCREENSHOT True answer pg))
                               (effects_of (captureContent SCREENSHOT True answer pg))],
            p\<lparr>in_flight := filter (\<lambda>a. fst a \<noteq> n) (in_flight p)\<rparr>)
      else ([], p))"

datatype pipeline_event =
    KeyDown KeyboardEvent int
  | RuntimeMessage ExtMessage int
  | AttemptResolves nat platform_answer

fun pipeline_step ::
  "page \<Rightarrow> pipeline_event \<Rightarrow> screenshot_pipeline \<Rightarrow> pipeline_report list \<times> screenshot_pipeline" where
  "pipeline_step pg (KeyDown event now) p = start_captures now (handleKeyboardShortcut event) p"
| "pipeline_step pg (RuntimeMessage message now) p = start_captures now (content_onMessage message) p"
| "pipeline_step pg (AttemptResolves n answer) p = attempt_resolves pg n answer p"

fun pipeline_run ::
  "page \<Rightarrow> pipeline_event list \<Rightarrow> screenshot_pipeline \<Rightarrow>
     pipeline_report list list \<times> screenshot_pipeline" where
  "pipeline_run pg [] p = ([], p)"
| "pipeline_run pg (e # es) p =
     (let (r, p1) = pipeline_step pg e p; (rs, p2) = pipeline_run pg es p1 in (r # rs, p2))"

section \<open>Verified properties\<close>

subsection \<open>Dedup filters\<close>

lemma captureTracker_isDuplicate_iff:
  "fst (captureTracker_isDuplicate c now recent) \<longleftrightarrow>
     (\<exists>ts. recent (getContentHash c) = Some ts \<and> now - ts < captureTracker_deduplicationWindow)"
  by (auto simp: captureTracker_isDuplicate_def captureTracker_cleanup_def Let_def
      captureTracker_deduplicationWindow_def split: option.splits if_splits)

lemma captureTracker_isDuplicate_evicts:
  "snd (captureTracker_isDuplicate c now recent) h = Some ts \<Longrightarrow>
     now - ts \<le> captureTracker_deduplicationWindow"
  by (auto simp: captureTracker_isDuplicate_def captureTracker_cleanup_def Let_def
      captureTracker_deduplicationWindow_def split: option.splits if_splits)

lemma captureTracker_first_call:
  assumes "recent (getContentHash c) = None \<or>
           (\<exists>ts. recent (getContentHash c) = Some ts \<and> t1 - ts > captureTracker_deduplicationWindow)"
  shows "captureTracker_isDuplicate c t1 recent =
           (False, (captureTracker_cleanup t1 recent)(getContentHash c \<mapsto> t1))"
  using assms
  by (auto simp: captureTracker_isDuplicate_def captureTracker_cleanup_def Let_def
      split: option.splits if_splits)

lemma captureTracker_twice_then_later:
  assumes fresh: "recent (getContentHash c) = None \<or>
           (\<exists>ts. recent (getContentHash c) = Some ts \<and> t1 - ts > captureTracker_deduplicationWindow)"
    and within: "t2 - t1 < captureTracker_deduplicationWindow"
    and later: "t3 - t1 \<ge> captureTracker_deduplicationWindow"
  shows "\<not> fst (captureTracker_isDuplicate c t1 recent)"
    and "fst (captureTracker_isDuplicate c t2 (snd (captureTracker_isDuplicate c t1 recent)))"
    and "\<not> fst (captureTracker_isDuplicate c t3
            (snd (captureTracker_isDuplicate c t2 (snd (captureTracker_isDuplicate c t1 recent)))))"
proof -
  let ?h = "getContentHash c"
  let ?m1 = "(captureTracker_cleanup t1 recent)(?h \<mapsto> t1)"
  have c1: "captureTracker_isDuplicate c t1 recent = (False, ?m1)"
    using fresh by (rule captureTracker_first_call)
  show "\<not> fst (captureTracker_isDuplicate c t1 recent)" by (simp add: c1)
  have c2: "captureTracker_isDuplicate c t2 ?m1 = (True, captureTracker_cleanup t2 ?m1)"
    using within
    by (simp add: captureTracker_isDuplicate_def captureTracker_cleanup_def Let_def)
  show "fst (captureTracker_isDuplicate c t2 (snd (captureTracker_isDuplicate c t1 recent)))"
    by (simp add: c1 c2)
  have m2: "captureTracker_cleanup t2 ?m1 ?h = Some t1"
    using within by (simp add: captureTracker_cleanup_def)
  have "\<not> fst (captureTracker_isDuplicate c t3 (captureTracker_cleanup t2 ?m1))"
    using later m2 by (simp add: captureTracker_isDuplicate_iff)
  then show "\<not> fst (captureTracker_isDuplicate c t3
            (snd (captureTracker_isDuplicate c t2 (snd (captureTracker_isDuplicate c t1 recent)))))"
    by (simp add: c1 c2)
qed


lemma messageDeduplication_isDuplicate_iff:
  "fst (messageDeduplication_isDuplicate c now recent) \<longleftrightarrow>
     (\<exists>ts. recent (getMessageHash c) = Some ts \<and> now - ts < messageDeduplication_deduplicationWindow)"
  by (auto simp: messageDeduplication_isDuplicate_def messageDeduplication_cleanup_def Let_def
      messageDeduplication_deduplicationWindow_def split: option.splits if_splits)

lemma messageDeduplication_isDuplicate_evicts:
  "snd (messageDeduplication_isDuplicate c now recent) h = Some ts \<Longrightarrow>
     now - ts \<le> messageDeduplication_deduplicationWindow"
  by (auto simp: messageDeduplication_isDuplicate_def messageDeduplication_cleanup_def Let_def
      messageDeduplication_deduplicationWindow_def split: option.splits if_splits)

lemma messageDeduplication_first_call:
  assumes "recent (getMessageHash c) = None \<or>
           (\<exists>ts. recent (getMessageHash c) = Some ts \<and> t1 - ts > messageDeduplication_deduplicationWindow)"
  shows "messageDeduplication_isDuplicate c t1 recent =
           (False, (messageDeduplication_cleanup t1 recent)(getMessageHash c \<mapsto> t1))"
  using assms
  by (auto simp: messageDeduplication_isDuplicate_def messageDeduplication_cleanup_def Let_def
      split: option.splits if_splits)

lemma messageDeduplication_twice_then_later:
  assumes fresh: "recent (getMessageHash c) = None \<or>
           (\<exists>ts. recent (getMessageHash c) = Some ts \<and> t1 - ts > messageDeduplication_deduplicationWindow)"
    and within: "t2 - t1 < messageDeduplication_deduplicationWindow"
    and later: "t3 - t1 \<ge> messageDeduplication_deduplicationWindow"
  shows "\<not> fst (messageDeduplication_isDuplicate c t1 recent)"
    and "fst (messageDeduplication_isDuplicate c t2 (snd (messageDeduplication_isDuplicate c t1 recent)))"
    and "\<not> fst (messageDeduplication_isDuplicate c t3
            (snd (messageDeduplication_isDuplicate c t2 (snd (messageDeduplication_isDuplicate c t1 recent)))))"
proof -
  let ?h = "getMessageHash c"
  let ?m1 = "(messageDeduplication_cleanup t1 recent)(?h \<mapsto> t1)"
  have c1: "messageDeduplication_isDuplicate c t1 recent = (False, ?m1)"
    using fresh by (rule messageDeduplication_first_call)
  show "\<not> fst (messageDeduplication_isDuplicate c t1 recent)" by (simp add: c1)
  have c2: "messageDeduplication_isDuplicate c t2 ?m1 = (True, messageDeduplication_cleanup t2 ?m1)"
    using within
    by (simp add: messageDeduplication_isDuplicate_def messageDeduplication_cleanup_def Let_def)
  show "fst (messageDeduplication_isDuplicate c t2 (snd (messageDeduplication_isDuplicate c t1 recent)))"
    by (simp add: c1 c2)
  have m2: "messageDeduplication_cleanup t2 ?m1 ?h = Some t1"
    using within by (simp add: messageDeduplication_cleanup_def)
  have "\<not> fst (messageDeduplication_isDuplicate c t3 (messageDeduplication_cleanup t2 ?m1))"
    using later m2 by (simp add: messageDeduplication_isDuplicate_iff)
  then show "\<not> fst (messageDeduplication_isDuplicate c t3
            (snd (messageDeduplication_isDuplicate c t2 (snd (messageDeduplication_isDuplicate c t1 recent)))))"
    by (simp add: c1 c2)
qed


text \<open>
  At exactly one window after the recorded time the entry is neither evicted nor renewed:
  the check answers false and the old timestamp stays.
\<close>

lemma isDuplicate_at_window_end:
  assumes "recent (getContentHash c) = Some ts"
    and "now - ts = captureTracker_deduplicationWindow"
  shows "captureTracker_isDuplicate c now recent = (False, captureTracker_cleanup now recent)"
    and "captureTracker_cleanup now recent (getContentHash c) = Some ts"
  using assms
  by (simp_all add: captureTracker_isDuplicate_def captureTracker_cleanup_def Let_def)

text \<open>
  C1.  For both filter instances (window 10000 ms on the page, 5000 ms in the background):
  a check answers "duplicate" exactly when the map holds the hash with a timestamp less
  than the window ago; after a check no entry older than the window is left; and from a
  filter that does not hold the hash (or holds it from longer ago than the window), a
  first check answers false, a second one less than the window after the first answers
  true, and a third one a full window or more after the first answers false.
\<close>

theorem isDuplicate_window:
  "(fst (captureTracker_isDuplicate c now recent) \<longleftrightarrow>
      (\<exists>ts. recent (getContentHash c) = Some ts \<and> now - ts < 10000))
   \<and> (\<forall>h ts. snd (captureTracker_isDuplicate c now recent) h = Some ts \<longrightarrow> now - ts \<le> 10000)
   \<and> ((recent (getContentHash c) = None \<or>
          (\<exists>ts. recent (getContentHash c) = Some ts \<and> t1 - ts > 10000))
        \<and> t2 - t1 < 10000 \<and> t3 - t1 \<ge> 10000 \<longrightarrow>
        \<not> fst (captureTracker_isDuplicate c t1 recent)
        \<and> fst (captureTracker_isDuplicate c t2 (snd (captureTracker_isDuplicate c t1 recent)))
        \<and> \<not> fst (captureTracker_isDuplicate c t3
              (snd (captureTracker_isDuplicate c t2 (snd (captureTracker_isDuplicate c t1 recent))))))
   \<and> (fst (messageDeduplication_isDuplicate m now seen) \<longleftrightarrow>
      (\<exists>ts. seen (getMessageHash m) = Some ts \<and> now - ts < 5000))
   \<and> (\<forall>h ts. snd (messageDeduplication_isDuplicate m now seen) h = Some ts \<longrightarrow> now - ts \<le> 5000)
   \<and> ((seen (getMessageHash m) = None \<or>
          (\<exists>ts. seen (getMessageHash m) = Some ts \<and> t1 - ts > 5000))
        \<and> u2 - t1 < 5000 \<and> u3 - t1 \<ge> 5000 \<longrightarrow>
        \<not> fst (messageDeduplication_isDuplicate m t1 seen)
        \<and> fst (messageDeduplication_isDuplicate m u2 (snd (messageDeduplication_isDuplicate m t1 seen)))
        \<and> \<not> fst (messageDeduplication_isDuplicate m u3
              (snd (messageDeduplication_isDuplicate m u2 (snd (messageDeduplication_isDuplicate m t1 seen))))))"
proof -
  note w = captureTracker_deduplicationWindow_def messageDeduplication_deduplicationWindow_def
  have a: "fst (captureTracker_isDuplicate c now recent) \<longleftrightarrow>
      (\<exists>ts. recent (getContentHash c) = Some ts \<and> now - ts < 10000)"
    using captureTracker_isDuplicate_iff[of c now recent] by (simp add: w)
  have b: "\<forall>h ts. snd (captureTracker_isDuplicate c now recent) h = Some ts \<longrightarrow> now - ts \<le> 10000"
    using captureTracker_isDuplicate_evicts[of c now recent] by (simp add: w)
  have c: "(recent (getContentHash c) = None \<or>
          (\<exists>ts. recent (getContentHash c) = Some ts \<and> t1 - ts > 10000))
        \<and> t2 - t1 < 10000 \<and> t3 - t1 \<ge> 10000 \<longrightarrow>
        \<not> fst (captureTracker_isDuplicate c t1 recent)
        \<and> fst (captureTracker_isDuplicate c t2 (snd (captureTracker_isDuplicate c t1 recent)))
        \<and> \<not> fst (captureTracker_isDuplicate c t3
              (snd (captureTracker_isDuplicate c t2 (snd (captureTracker_isDuplicate c t1 recent)))))"
    using captureTracker_twice_then_later[of recent c t1 t2 t3] by (simp add: w)
  have d: "fst (messageDeduplication_isDuplicate m now seen) \<longleftrightarrow>
      (\<exists>ts. seen (getMessageHash m) = Some ts \<and> now - ts < 5000)"
    using messageDeduplication_isDuplicate_iff[of m now seen] by (simp add: w)
  have e: "\<forall>h ts. snd (messageDeduplication_isDuplicate m now seen) h = Some ts \<longrightarrow> now - ts \<le> 5000"
    using messageDeduplication_isDuplicate_evicts[of m now seen] by (simp add: w)
  have f: "(seen (getMessageHash m) = None \<or>
          (\<exists>ts. seen (getMessageHash m) = Some ts \<and> t1 - ts > 5000))
        \<and> u2 - t1 < 5000 \<and> u3 - t1 \<ge> 5000 \<longrightarrow>
        \<not> fst (messageDeduplication_isDuplicate m t1 seen)
        \<and> fst (messageDeduplication_isDuplicate m u2 (snd (messageDeduplication_isDuplicate m t1 seen)))
        \<and> \<not> fst (messageDeduplication_isDuplicate m u3
              (snd (messageDeduplication_isDuplicate m u2 (snd (messageDeduplication_isDuplicate m t1 seen)))))"
    using messageDeduplication_twice_then_later[of seen m t1 u2 u3] by (simp add: w)
  show ?thesis using a b c d e f by blast
qed

theorem isDuplicate_window_witness:
  "\<not> fst (captureTracker_isDuplicate
        \<lparr>cc_type = TEXT, cc_content = ''The quick brown fox'', cc_title = ''Test Page'',
         cc_url = ''https://example.com'', cc_timestamp = 0, cc_metadata = []\<rparr> 1000 Map.empty)
   \<and> fst (captureTracker_isDuplicate
        \<lparr>cc_type = TEXT, cc_content = ''The quick brown fox'', cc_title = ''Test Page'',
         cc_url = ''https://example.com'', cc_timestamp = 0, cc_metadata = []\<rparr> 4000
        (snd (captureTracker_isDuplicate
        \<lparr>cc_type = TEXT, cc_content = ''The quick brown fox'', cc_title = ''Test Page'',
         cc_url = ''https://example.com'', cc_timestamp = 0, cc_metadata = []\<rparr> 1000 Map.empty)))
   \<and> \<not> fst (messageDeduplication_isDuplicate
        \<lparr>messageType = capturedSelection, sender = Some contentScript, content = Some ''fox'',
         metadata = Some [(''type'', JString ''text'')]\<rparr> 9000
        (snd (messageDeduplication_isDuplicate
        \<lparr>messageType = capturedSelection, sender = Some contentScript, content = Some ''fox'',
         metadata = Some [(''type'', JString ''text'')]\<rparr> 4000
        (snd (messageDeduplication_isDuplicate
        \<lparr>messageType = capturedSelection, sender = Some contentScript, content = Some ''fox'',
         metadata = Some [(''type'', JString ''text'')]\<rparr> 1000 Map.empty)))))"
  using isDuplicate_window
    [of "\<lparr>cc_type = TEXT, cc_content = ''The quick brown fox'', cc_title = ''Test Page'',
         cc_url = ''https://example.com'', cc_timestamp = 0, cc_metadata = []\<rparr>"
        1000 Map.empty 1000 4000 12000
        "\<lparr>messageType = capturedSelection, sender = Some contentScript, content = Some ''fox'',
         metadata = Some [(''type'', JString ''text'')]\<rparr>" Map.empty 4000 9000]
  by simp

subsection \<open>Capture store\<close>

lemma take_append_take:
  "take n (xs @ take n ys) = take n (xs @ ys)"
  by (simp add: take_append min_def)

lemma storeCapture_existing_le:
  "length (existingCaptures (storage s)) \<le> MAX_RECENT_CAPTURES \<Longrightarrow>
   length (existingCaptures (storage (storeCapture m out s))) \<le> MAX_RECENT_CAPTURES"
  by (cases out) (simp_all add: storeCapture_def trimmedCaptures_def existingCaptures_def)

lemma existing_storeCaptures:
  "length (existingCaptures (storage s)) \<le> MAX_RECENT_CAPTURES \<Longrightarrow>
   existingCaptures (storage (storeCaptures evs s)) =
     take MAX_RECENT_CAPTURES (rev (persisted evs) @ existingCaptures (storage s))"
proof (induction evs arbitrary: s)
  case Nil
  then show ?case by (simp add: persisted_def)
next
  case (Cons e evs)
  obtain m out where e: "e = (m, out)" by (cases e)
  have le: "length (existingCaptures (storage (storeCapture m out s))) \<le> MAX_RECENT_CAPTURES"
    using Cons.prems by (rule storeCapture_existing_le)
  note IH = Cons.IH[OF le]
  show ?case
  proof (cases "out = Io_ok")
    case True
    have st: "existingCaptures (storage (storeCapture m Io_ok s)) =
          take MAX_RECENT_CAPTURES (m # existingCaptures (storage s))"
      by (simp add: storeCapture_def trimmedCaptures_def existingCaptures_def)
    have "existingCaptures (storage (storeCaptures (e # evs) s)) =
       take MAX_RECENT_CAPTURES (rev (persisted evs) @ take MAX_RECENT_CAPTURES (m # existingCaptures (storage s)))"
      using IH by (simp add: e True st)
    also have "\<dots> = take MAX_RECENT_CAPTURES (rev (persisted evs) @ m # existingCaptures (storage s))"
      by (rule take_append_take)
    finally show ?thesis by (simp add: e True persisted_def)
  next
    case False
    then have "storage (storeCapture m out s) = storage s"
      by (cases out) (simp_all add: storeCapture_def)
    with IH False show ?thesis by (simp add: e persisted_def)
  qed
qed

lemma fallback_unshift_take:
  assumes "length rc \<le> MAX_RECENT_CAPTURES"
  shows "fallback_unshift m rc = take MAX_RECENT_CAPTURES (m # rc)"
proof (cases "length rc = MAX_RECENT_CAPTURES")
  case True
  then have ne: "rc \<noteq> []" by (auto simp: MAX_RECENT_CAPTURES_def)
  have "butlast rc = take 99 rc"
    using True by (simp add: butlast_conv_take MAX_RECENT_CAPTURES_def)
  then show ?thesis
    using True ne by (simp add: fallback_unshift_def Let_def MAX_RECENT_CAPTURES_def)
next
  case False
  with assms have "length rc < MAX_RECENT_CAPTURES" by simp
  then show ?thesis
    by (simp add: fallback_unshift_def Let_def MAX_RECENT_CAPTURES_def)
qed

lemma at_capacity:
  "length xs = MAX_RECENT_CAPTURES \<Longrightarrow> trimmedCaptures m (Some xs) = m # butlast xs"
  by (simp add: trimmedCaptures_def existingCaptures_def MAX_RECENT_CAPTURES_def butlast_conv_take)


lemma mirror_storeCaptures:
  "length (recentCaptures s) \<le> MAX_RECENT_CAPTURES \<Longrightarrow>
   recentCaptures (storeCaptures evs s) =
     take MAX_RECENT_CAPTURES (rev (mirrored evs) @ recentCaptures s)"
proof (induction evs arbitrary: s)
  case Nil
  then show ?case by (simp add: mirrored_def)
next
  case (Cons e evs)
  obtain m out where e: "e = (m, out)" by (cases e)
  show ?case
  proof (cases "out = Get_rejected")
    case True
    have st: "recentCaptures (storeCapture m Get_rejected s) =
          take MAX_RECENT_CAPTURES (m # recentCaptures s)"
      using Cons.prems by (simp add: storeCapture_def fallback_unshift_take)
    then have le: "length (recentCaptures (storeCapture m Get_rejected s)) \<le> MAX_RECENT_CAPTURES"
      by simp
    have "recentCaptures (storeCaptures (e # evs) s) =
       take MAX_RECENT_CAPTURES (rev (mirrored evs) @ take MAX_RECENT_CAPTURES (m # recentCaptures s))"
      using Cons.IH[OF le] by (simp add: e True st)
    also have "\<dots> = take MAX_RECENT_CAPTURES (rev (mirrored evs) @ m # recentCaptures s)"
      by (rule take_append_take)
    finally show ?thesis by (simp add: e True mirrored_def)
  next
    case False
    then have same: "recentCaptures (storeCapture m out s) = recentCaptures s"
      by (cases out) (simp_all add: storeCapture_def)
    with Cons.prems have "length (recentCaptures (storeCapture m out s)) \<le> MAX_RECENT_CAPTURES"
      by simp
    from Cons.IH[OF this] same False show ?thesis by (simp add: e mirrored_def)
  qed
qed

text \<open>
  C5.  One \<open>storeCapture\<close> whose two I/O calls succeed writes the record followed by the
  previous list, cut to 100 entries; on a list of exactly 100 entries that is the record
  followed by all but the last (oldest) entry.  After any run of appends on an empty store
  the persisted list is the successfully written records, newest first, cut to 100, and
  the in-memory fallback list is the records whose read failed, newest first, cut to 100.
\<close>

theorem storeCapture_newest_first_bounded:
  "storage (storeCapture m Io_ok s) =
      Some (take 100 (m # existingCaptures (storage s)))
   \<and> length (existingCaptures (storage (storeCapture m Io_ok s))) \<le> 100
   \<and> (storage s = Some xs \<and> length xs = 100 \<longrightarrow>
        storage (storeCapture m Io_ok s) = Some (m # butlast xs))
   \<and> existingCaptures (storage (storeCaptures evs empty_store)) = take 100 (rev (persisted evs))
   \<and> length (existingCaptures (storage (storeCaptures evs empty_store))) \<le> 100
   \<and> recentCaptures (storeCaptures evs empty_store) = take 100 (rev (mirrored evs))
   \<and> length (recentCaptures (storeCaptures evs empty_store)) \<le> 100"
proof -
  have a: "storage (storeCapture m Io_ok s) = Some (take 100 (m # existingCaptures (storage s)))"
    by (simp add: storeCapture_def trimmedCaptures_def MAX_RECENT_CAPTURES_def)
  have b: "length (existingCaptures (storage (storeCapture m Io_ok s))) \<le> 100"
    by (simp add: a existingCaptures_def)
  have c: "storage s = Some xs \<and> length xs = 100 \<longrightarrow>
        storage (storeCapture m Io_ok s) = Some (m # butlast xs)"
    using at_capacity[of xs m] by (simp add: storeCapture_def MAX_RECENT_CAPTURES_def)
  have d: "existingCaptures (storage (storeCaptures evs empty_store)) = take 100 (rev (persisted evs))"
    using existing_storeCaptures[of empty_store evs]
    by (simp add: empty_store_def existingCaptures_def MAX_RECENT_CAPTURES_def)
  have e: "recentCaptures (storeCaptures evs empty_store) = take 100 (rev (mirrored evs))"
    using mirror_storeCaptures[of empty_store evs]
    by (simp add: empty_store_def MAX_RECENT_CAPTURES_def)
  show ?thesis using a b c d e by simp
qed

theorem storeCapture_newest_first_bounded_witness:
  "storage (storeCapture \<lparr>messageType = capturedSelection, sender = None, content = Some ''new'', metadata = None\<rparr> Io_ok
      \<lparr>storage = Some (replicate 100 \<lparr>messageType = capturedSelection, sender = None, content = Some ''old'', metadata = None\<rparr>),
       recentCaptures = []\<rparr>)
   = Some (\<lparr>messageType = capturedSelection, sender = None, content = Some ''new'', metadata = None\<rparr>
          # replicate 99 \<lparr>messageType = capturedSelection, sender = None, content = Some ''old'', metadata = None\<rparr>)"
proof -
  let ?new = "\<lparr>messageType = capturedSelection, sender = None, content = Some ''new'', metadata = None\<rparr>"
  let ?old = "\<lparr>messageType = capturedSelection, sender = None, content = Some ''old'', metadata = None\<rparr>"
  let ?s = "\<lparr>storage = Some (replicate 100 ?old), recentCaptures = []\<rparr>"
  have full: "storage ?s = Some (replicate 100 ?old) \<and> length (replicate 100 ?old) = 100"
    by simp
  have "storage (storeCapture ?new Io_ok ?s) = Some (?new # butlast (replicate 100 ?old))"
    using storeCapture_newest_first_bounded[of ?new ?s "replicate 100 ?old" "[]"] full
    by blast
  then show ?thesis by (simp add: butlast_conv_take)
qed

subsection \<open>Content classifier\<close>

lemma trim_whitespace_only: "list_all js_space str \<Longrightarrow> trim str = []"
proof -
  assume "list_all js_space str"
  then have d: "dropWhile js_space str = []" by (induction str) simp_all
  show ?thesis unfolding trim_def d by simp
qed

lemma self_in_subtree: "is_element n \<Longrightarrow> n \<in> set (subtree_elements n)"
  by (cases n) simp_all

lemma child_in_star:
  "n \<in> set fragment \<Longrightarrow> is_element n \<Longrightarrow> n \<in> set (querySelectorAll_star fragment)"
  unfolding querySelectorAll_star_def using self_in_subtree by auto

lemma wrappers_only_not_html:
  assumes "list_all (\<lambda>el. tagName el \<in> set [''BR'', ''P'', ''DIV'', ''SPAN''] \<and> attributes el = [])
             (querySelectorAll_star (cloneContents s))"
  shows "\<not> shouldUseHTMLCapture (Some s)"
proof -
  let ?els = "querySelectorAll_star (cloneContents s)"
  have all: "\<And>el. el \<in> set ?els \<Longrightarrow>
      tagName el \<in> set [''BR'', ''P'', ''DIV'', ''SPAN''] \<and> attributes el = []"
    using assms by (simp add: list_all_iff)
  have a: "\<not> list_ex (\<lambda>node. is_element node \<and>
                      \<not> (tagName node \<in> set [''BR'', ''P'', ''DIV'', ''SPAN''] \<and>
                         attributes node = [])) (cloneContents s)"
    using all child_in_star by (fastforce simp: list_ex_iff)
  have b: "\<not> list_ex (\<lambda>el. tagName el \<in> set htmlElements) ?els"
    using all by (fastforce simp: list_ex_iff htmlElements_def)
  show ?thesis using a b by (simp add: shouldUseHTMLCapture_def Let_def)
qed

lemma html_capture_has_elements:
  "shouldUseHTMLCapture (Some s) \<Longrightarrow> querySelectorAll_star (cloneContents s) \<noteq> []"
  using child_in_star
  by (fastforce simp: shouldUseHTMLCapture_def Let_def list_ex_iff split: if_splits)

lemma ratio_below_fifth:
  "0 < t \<Longrightarrow> (real sp / real t < 0.2) = (5 * sp < t)"
proof -
  assume t: "0 < t"
  have "(real sp / real t < 0.2) = (real sp < 0.2 * real t)"
    using t by (simp add: pos_divide_less_eq)
  also have "\<dots> = (real (5 * sp) < real t)" by (simp add: mult.commute)
  also have "\<dots> = (5 * sp < t)" by (rule of_nat_less_iff)
  finally show ?thesis .
qed

lemma detect_rich:
  assumes "rangeCount s \<noteq> 0" "trim (sel_toString s) \<noteq> []" "shouldUseHTMLCapture (Some s)"
  shows "detectCaptureType (Some s) =
     (if list_ex (\<lambda>el. tagName el \<in> set markdownElements) (querySelectorAll_star (cloneContents s))
         \<and> 5 * length (querySelectorAll_special (cloneContents s))
             < length (querySelectorAll_star (cloneContents s))
      then Some MARKDOWN else Some HTML)"
proof -
  have "0 < length (querySelectorAll_star (cloneContents s))"
    using html_capture_has_elements[OF assms(3)] by simp
  then show ?thesis
    using assms by (simp add: detectCaptureType_def Let_def ratio_below_fifth)
qed

lemma tags_markdown_example:
  assumes ne: "rangeCount s \<noteq> 0" "trim (sel_toString s) \<noteq> []"
    and tags: "set (map tagName (querySelectorAll_star (cloneContents s))) = {''H1'', ''P'', ''A'', ''UL''}"
  shows "detectCaptureType (Some s) = Some MARKDOWN"
proof -
  let ?els = "querySelectorAll_star (cloneContents s)"
  have mem: "tagName el \<in> {''H1'', ''P'', ''A'', ''UL''}" if "el \<in> set ?els" for el
  proof -
    from that have "tagName el \<in> set (map tagName ?els)" by simp
    then show ?thesis by (simp only: tags)
  qed
  have "''A'' \<in> set (map tagName ?els)" by (simp only: tags) simp
  then obtain a where a: "a \<in> set ?els" "tagName a = ''A''" by auto
  have html: "shouldUseHTMLCapture (Some s)"
    using a ne by (auto simp: shouldUseHTMLCapture_def Let_def list_ex_iff htmlElements_def)
  have md: "list_ex (\<lambda>el. tagName el \<in> set markdownElements) ?els"
    using a by (auto simp: list_ex_iff markdownElements_def)
  have "localName el \<notin> set [''img'', ''video'', ''canvas'', ''svg'', ''table'', ''iframe'']"
    if "el \<in> set ?els" for el
    using mem[OF that] by (cases el) (auto simp: ascii_upper_def split: if_splits)
  then have "querySelectorAll_special (cloneContents s) = []"
    unfolding querySelectorAll_special_def filter_empty_conv by blast
  then show ?thesis
    using detect_rich[OF ne html] md a(1) by (auto simp: length_greater_0_conv)
qed

lemma tags_html_example:
  assumes ne: "rangeCount s \<noteq> 0" "trim (sel_toString s) \<noteq> []"
    and tags: "set (map tagName (querySelectorAll_star (cloneContents s))) = {''DIV'', ''IMG''}"
  shows "detectCaptureType (Some s) = Some HTML"
proof -
  let ?els = "querySelectorAll_star (cloneContents s)"
  have mem: "tagName el \<in> {''DIV'', ''IMG''}" if "el \<in> set ?els" for el
  proof -
    from that have "tagName el \<in> set (map tagName ?els)" by simp
    then show ?thesis by (simp only: tags)
  qed
  have "''IMG'' \<in> set (map tagName ?els)" by (simp only: tags) simp
  then obtain a where a: "a \<in> set ?els" "tagName a = ''IMG''" by auto
  have html: "shouldUseHTMLCapture (Some s)"
    using a ne by (auto simp: shouldUseHTMLCapture_def Let_def list_ex_iff htmlElements_def)
  have md: "\<not> list_ex (\<lambda>el. tagName el \<in> set markdownElements) ?els"
    using mem by (fastforce simp: list_ex_iff markdownElements_def)
  show ?thesis
    using detect_rich[OF ne html] md by simp
qed


lemma special_count:
  "length (querySelectorAll_special fragment) =
     length (filter (\<lambda>el. localName el \<in> {''img'', ''video'', ''canvas'', ''svg'', ''table'', ''iframe''})
               (querySelectorAll_star fragment))"
  by (simp add: querySelectorAll_special_def)

lemmas classify_eval = detectCaptureType_def shouldUseHTMLCapture_def Let_def
  querySelectorAll_star_def querySelectorAll_special_def trim_def js_space_def
  markdownElements_def htmlElements_def ascii_upper_def

lemma one_special_in_five:
  "detectCaptureType (Some \<lparr>rangeCount = 1, sel_toString = ''one two three four '',
      cloneContents =
        [Element HTML_namespace ''a'' [(''href'', ''/1'')] [TextNode ''one''], TextNode '' '',
         Element HTML_namespace ''a'' [(''href'', ''/2'')] [TextNode ''two''], TextNode '' '',
         Element HTML_namespace ''a'' [(''href'', ''/3'')] [TextNode ''three''], TextNode '' '',
         Element HTML_namespace ''a'' [(''href'', ''/4'')] [TextNode ''four''], TextNode '' '',
         Element HTML_namespace ''img'' [(''src'', ''a.png'')] []],
      sel_innerHTML = ''<a href=\"/1\">one</a> <a href=\"/2\">two</a> <a href=\"/3\">three</a> <a href=\"/4\">four</a> <img src=\"a.png\">''\<rparr>)
   = Some HTML"
  by (simp add: classify_eval)

lemma one_special_in_six:
  "detectCaptureType (Some \<lparr>rangeCount = 1, sel_toString = ''one two three four five '',
      cloneContents =
        [Element HTML_namespace ''a'' [(''href'', ''/1'')] [TextNode ''one''], TextNode '' '',
         Element HTML_namespace ''a'' [(''href'', ''/2'')] [TextNode ''two''], TextNode '' '',
         Element HTML_namespace ''a'' [(''href'', ''/3'')] [TextNode ''three''], TextNode '' '',
         Element HTML_namespace ''a'' [(''href'', ''/4'')] [TextNode ''four''], TextNode '' '',
         Element HTML_namespace ''a'' [(''href'', ''/5'')] [TextNode ''five''], TextNode '' '',
         Element HTML_namespace ''img'' [(''src'', ''a.png'')] []],
      sel_innerHTML = ''<a href=\"/1\">one</a> <a href=\"/2\">two</a> <a href=\"/3\">three</a> <a href=\"/4\">four</a> <a href=\"/5\">five</a> <img src=\"a.png\">''\<rparr>)
   = Some MARKDOWN"
  by (simp add: classify_eval)

text \<open>A type selector is matched against the local name as it is written: an element
  \<open>VIDEO\<close> outside the HTML namespace is not special, an \<open>svg\<close> element is.\<close>

lemma special_by_local_name:
  "querySelectorAll_special
     [Element HTML_namespace ''p'' [] [TextNode ''x'', Element Other_namespace ''VIDEO'' [] []],
      Element Other_namespace ''svg'' [] [Element Other_namespace ''path'' [] []],
      Element HTML_namespace ''table'' [] []]
   = [Element Other_namespace ''svg'' [] [Element Other_namespace ''path'' [] []],
      Element HTML_namespace ''table'' [] []]"
  by (simp add: querySelectorAll_special_def querySelectorAll_star_def)


text \<open>
  C3.  \<open>detectCaptureType\<close> answers null when there is no selection, no range, or only
  whitespace selected.  A fragment all of whose elements are unattributed BR, P, DIV or
  SPAN makes \<open>shouldUseHTMLCapture\<close> false, and the answer is TEXT.  When
  \<open>shouldUseHTMLCapture\<close> is true the answer is MARKDOWN exactly when some element is in
  the Markdown-friendly set and the elements named img, video, canvas, svg, table or
  iframe are fewer than a fifth of all elements (the quotient below 0.2), and HTML
  otherwise.  Element tags H1, P, A, UL give MARKDOWN; element tags DIV, IMG give HTML.
  At the threshold: four links and one image (quotient exactly 0.2) give HTML, five links
  and one image (quotient 1/6) give MARKDOWN.
\<close>

theorem detectCaptureType_classifies:
  "detectCaptureType None = None
   \<and> (rangeCount s = 0 \<or> list_all js_space (sel_toString s) \<longrightarrow> detectCaptureType (Some s) = None)
   \<and> (list_all (\<lambda>el. tagName el \<in> set [''BR'', ''P'', ''DIV'', ''SPAN''] \<and> attributes el = [])
         (querySelectorAll_star (cloneContents s))
       \<longrightarrow> \<not> shouldUseHTMLCapture (Some s)
           \<and> (rangeCount s \<noteq> 0 \<and> trim (sel_toString s) \<noteq> [] \<longrightarrow>
                detectCaptureType (Some s) = Some TEXT))
   \<and> (rangeCount s \<noteq> 0 \<and> trim (sel_toString s) \<noteq> [] \<and> shouldUseHTMLCapture (Some s) \<longrightarrow>
        (detectCaptureType (Some s) = Some MARKDOWN \<or> detectCaptureType (Some s) = Some HTML)
        \<and> (detectCaptureType (Some s) = Some MARKDOWN \<longleftrightarrow>
             (\<exists>el \<in> set (querySelectorAll_star (cloneContents s)).
                 tagName el \<in> {''H1'', ''H2'', ''H3'', ''H4'', ''H5'', ''H6'', ''P'', ''UL'', ''OL'',
                                ''LI'', ''A'', ''CODE'', ''BLOCKQUOTE''})
             \<and> real (length (filter
                         (\<lambda>el. localName el \<in>
                                 {''img'', ''video'', ''canvas'', ''svg'', ''table'', ''iframe''})
                         (querySelectorAll_star (cloneContents s))))
                 / real (length (querySelectorAll_star (cloneContents s))) < 0.2))
   \<and> (rangeCount s \<noteq> 0 \<and> trim (sel_toString s) \<noteq> []
        \<and> set (map tagName (querySelectorAll_star (cloneContents s))) = {''H1'', ''P'', ''A'', ''UL''}
       \<longrightarrow> detectCaptureType (Some s) = Some MARKDOWN)
   \<and> (rangeCount s \<noteq> 0 \<and> trim (sel_toString s) \<noteq> []
        \<and> set (map tagName (querySelectorAll_star (cloneContents s))) = {''DIV'', ''IMG''}
       \<longrightarrow> detectCaptureType (Some s) = Some HTML)
   \<and> detectCaptureType (Some \<lparr>rangeCount = 1, sel_toString = ''one two three four '',
      cloneContents =
        [Element HTML_namespace ''a'' [(''href'', ''/1'')] [TextNode ''one''], TextNode '' '',
         Element HTML_namespace ''a'' [(''href'', ''/2'')] [TextNode ''two''], TextNode '' '',
         Element HTML_namespace ''a'' [(''href'', ''/3'')] [TextNode ''three''], TextNode '' '',
         Element HTML_namespace ''a'' [(''href'', ''/4'')] [TextNode ''four''], TextNode '' '',
         Element HTML_namespace ''img'' [(''src'', ''a.png'')] []],
      sel_innerHTML = ''<a href=\"/1\">one</a> <a href=\"/2\">two</a> <a href=\"/3\">three</a> <a href=\"/4\">four</a> <img src=\"a.png\">''\<rparr>)
     = Some HTML
   \<and> detectCaptureType (Some \<lparr>rangeCount = 1, sel_toString = ''one two three four five '',
      cloneContents =
        [Element HTML_namespace ''a'' [(''href'', ''/1'')] [TextNode ''one''], TextNode '' '',
         Element HTML_namespace ''a'' [(''href'', ''/2'')] [TextNode ''two''], TextNode '' '',
         Element HTML_namespace ''a'' [(''href'', ''/3'')] [TextNode ''three''], TextNode '' '',
         Element HTML_namespace ''a'' [(''href'', ''/4'')] [TextNode ''four''], TextNode '' '',
         Element HTML_namespace ''a'' [(''href'', ''/5'')] [TextNode ''five''], TextNode '' '',
         Element HTML_namespace ''img'' [(''src'', ''a.png'')] []],
      sel_innerHTML = ''<a href=\"/1\">one</a> <a href=\"/2\">two</a> <a href=\"/3\">three</a> <a href=\"/4\">four</a> <a href=\"/5\">five</a> <img src=\"a.png\">''\<rparr>)
     = Some MARKDOWN"
proof -
  have a: "detectCaptureType None = None" by (simp add: detectCaptureType_def)
  have b: "rangeCount s = 0 \<or> list_all js_space (sel_toString s) \<longrightarrow> detectCaptureType (Some s) = None"
    using trim_whitespace_only[of "sel_toString s"] by (auto simp: detectCaptureType_def)
  have c: "list_all (\<lambda>el. tagName el \<in> set [''BR'', ''P'', ''DIV'', ''SPAN''] \<and> attributes el = [])
         (querySelectorAll_star (cloneContents s))
       \<longrightarrow> \<not> shouldUseHTMLCapture (Some s)
           \<and> (rangeCount s \<noteq> 0 \<and> trim (sel_toString s) \<noteq> [] \<longrightarrow>
                detectCaptureType (Some s) = Some TEXT)"
  proof
    assume "list_all (\<lambda>el. tagName el \<in> set [''BR'', ''P'', ''DIV'', ''SPAN''] \<and> attributes el = [])
         (querySelectorAll_star (cloneContents s))"
    then have "\<not> shouldUseHTMLCapture (Some s)" by (rule wrappers_only_not_html)
    then show "\<not> shouldUseHTMLCapture (Some s)
           \<and> (rangeCount s \<noteq> 0 \<and> trim (sel_toString s) \<noteq> [] \<longrightarrow>
                detectCaptureType (Some s) = Some TEXT)"
      by (simp add: detectCaptureType_def)
  qed
  have d: "rangeCount s \<noteq> 0 \<and> trim (sel_toString s) \<noteq> [] \<and> shouldUseHTMLCapture (Some s) \<longrightarrow>
        (detectCaptureType (Some s) = Some MARKDOWN \<or> detectCaptureType (Some s) = Some HTML)
        \<and> (detectCaptureType (Some s) = Some MARKDOWN \<longleftrightarrow>
             (\<exists>el \<in> set (querySelectorAll_star (cloneContents s)).
                 tagName el \<in> {''H1'', ''H2'', ''H3'', ''H4'', ''H5'', ''H6'', ''P'', ''UL'', ''OL'',
                                ''LI'', ''A'', ''CODE'', ''BLOCKQUOTE''})
             \<and> real (length (filter
                         (\<lambda>el. localName el \<in>
                                 {''img'', ''video'', ''canvas'', ''svg'', ''table'', ''iframe''})
                         (querySelectorAll_star (cloneContents s))))
                 / real (length (querySelectorAll_star (cloneContents s))) < 0.2)"
  proof
    assume h: "rangeCount s \<noteq> 0 \<and> trim (sel_toString s) \<noteq> [] \<and> shouldUseHTMLCapture (Some s)"
    then have pos: "0 < length (querySelectorAll_star (cloneContents s))"
      using html_capture_has_elements[of s] by simp
    from h have r: "detectCaptureType (Some s) =
     (if list_ex (\<lambda>el. tagName el \<in> set markdownElements) (querySelectorAll_star (cloneContents s))
         \<and> 5 * length (querySelectorAll_special (cloneContents s))
             < length (querySelectorAll_star (cloneContents s))
      then Some MARKDOWN else Some HTML)"
      using detect_rich[of s] by simp
    have m: "list_ex (\<lambda>el. tagName el \<in> set markdownElements) (querySelectorAll_star (cloneContents s))
        = (\<exists>el \<in> set (querySelectorAll_star (cloneContents s)).
                 tagName el \<in> {''H1'', ''H2'', ''H3'', ''H4'', ''H5'', ''H6'', ''P'', ''UL'', ''OL'',
                                ''LI'', ''A'', ''CODE'', ''BLOCKQUOTE''})"
      by (simp add: list_ex_iff markdownElements_def)
    show "(detectCaptureType (Some s) = Some MARKDOWN \<or> detectCaptureType (Some s) = Some HTML)
        \<and> (detectCaptureType (Some s) = Some MARKDOWN \<longleftrightarrow>
             (\<exists>el \<in> set (querySelectorAll_star (cloneContents s)).
                 tagName el \<in> {''H1'', ''H2'', ''H3'', ''H4'', ''H5'', ''H6'', ''P'', ''UL'', ''OL'',
                                ''LI'', ''A'', ''CODE'', ''BLOCKQUOTE''})
             \<and> real (length (filter
                         (\<lambda>el. localName el \<in>
                                 {''img'', ''video'', ''canvas'', ''svg'', ''table'', ''iframe''})
                         (querySelectorAll_star (cloneContents s))))
                 / real (length (querySelectorAll_star (cloneContents s))) < 0.2)"
      unfolding r m special_count[symmetric] ratio_below_fifth[OF pos] by simp
  qed
  have e: "rangeCount s \<noteq> 0 \<and> trim (sel_toString s) \<noteq> []
        \<and> set (map tagName (querySelectorAll_star (cloneContents s))) = {''H1'', ''P'', ''A'', ''UL''}
       \<longrightarrow> detectCaptureType (Some s) = Some MARKDOWN"
    using tags_markdown_example[of s] by blast
  have f: "rangeCount s \<noteq> 0 \<and> trim (sel_toString s) \<noteq> []
        \<and> set (map tagName (querySelectorAll_star (cloneContents s))) = {''DIV'', ''IMG''}
       \<longrightarrow> detectCaptureType (Some s) = Some HTML"
    using tags_html_example[of s] by blast
  from a b c d e f one_special_in_five one_special_in_six show ?thesis by (intro conjI)
qed

theorem detectCaptureType_classifies_witness:
  "detectCaptureType (Some \<lparr>rangeCount = 1, sel_toString = ''HTML with image'',
      cloneContents = [Element HTML_namespace ''div'' []
                         [TextNode ''HTML with image'',
                          Element HTML_namespace ''img'' [(''src'', ''a.png'')] []]],
      sel_innerHTML = ''<div>HTML with image<img src=\"a.png\"></div>''\<rparr>) = Some HTML"
proof -
  let ?s = "\<lparr>rangeCount = 1, sel_toString = ''HTML with image'',
      cloneContents = [Element HTML_namespace ''div'' []
                         [TextNode ''HTML with image'',
                          Element HTML_namespace ''img'' [(''src'', ''a.png'')] []]],
      sel_innerHTML = ''<div>HTML with image<img src=\"a.png\"></div>''\<rparr>"
  have h: "rangeCount ?s \<noteq> 0 \<and> trim (sel_toString ?s) \<noteq> []
        \<and> set (map tagName (querySelectorAll_star (cloneContents ?s))) = {''DIV'', ''IMG''}"
    by (simp add: trim_def js_space_def querySelectorAll_star_def ascii_upper_def)
  show ?thesis
    using detectCaptureType_classifies[of ?s] h by blast
qed

subsection \<open>Capture extractor\<close>

lemma no_selection_whitespace:
  "getSelection pg = None \<or>
     (\<exists>sel. getSelection pg = Some sel \<and> (rangeCount sel = 0 \<or> list_all js_space (sel_toString sel)))
   \<Longrightarrow> no_selection (getSelection pg)"
  using trim_whitespace_only by (auto simp: no_selection_def)

lemma captureTextSelection_none:
  "no_selection (getSelection pg) \<Longrightarrow> captureTextSelection st sm pg = (None, [])"
  by (auto simp: no_selection_def captureTextSelection_def split: option.splits)

lemma captureHtmlSelection_none:
  "no_selection (getSelection pg) \<Longrightarrow> captureHtmlSelection st sm pg = Inr (None, [])"
  by (auto simp: no_selection_def captureHtmlSelection_def split: option.splits)

lemma captureMarkdownSelection_none:
  "no_selection (getSelection pg) \<Longrightarrow> captureMarkdownSelection sn pg = Inr (None, [])"
  by (simp add: captureMarkdownSelection_def captureHtmlSelection_none)

lemma captureHtmlSelection_throws:
  "\<not> no_selection (getSelection pg) \<Longrightarrow> range_exception pg = Some e \<Longrightarrow>
     captureHtmlSelection st sm pg = Inl e"
  by (auto simp: no_selection_def captureHtmlSelection_def split: option.splits)

lemma captureMarkdownSelection_throws:
  "\<not> no_selection (getSelection pg) \<Longrightarrow> range_exception pg = Some e \<Longrightarrow>
     captureMarkdownSelection sn pg = Inl e"
  by (simp add: captureMarkdownSelection_def captureHtmlSelection_throws)

lemma captureContent_returns: "\<not> isl (captureContent t st answer pg)"
  by (auto simp: captureContent_def try_catch_def split: sum.splits prod.splits option.splits)

text \<open>
  C10.  \<open>captureContent\<close> returns for every capture type, every platform answer and every
  page: it never ends in an exception.  For TEXT, HTML and MARKDOWN a missing, empty or
  whitespace-only selection gives null (with the "no content" toast when toasts are on).
  An exception raised while the selected range is cloned and serialised leaves
  \<open>captureHtmlSelection\<close> and \<open>captureMarkdownSelection\<close> as an exception, and \<open>captureContent\<close>
  turns it into null (with the "Capture failed" toast when toasts are on).  An exception
  while the document is traversed for a full-page capture gives null as well.
\<close>

theorem captureContent_never_throws:
  "\<not> isl (captureContent t st answer pg)
   \<and> ((getSelection pg = None \<or>
        (\<exists>sel. getSelection pg = Some sel \<and>
               (rangeCount sel = 0 \<or> list_all js_space (sel_toString sel))))
       \<and> (t = TEXT \<or> t = HTML \<or> t = MARKDOWN) \<longrightarrow>
       captureContent t st answer pg =
         Inr (None, if st then [ShowCustomToast (''No '' @ CaptureType_value t @ '' content captured'')]
                    else []))
   \<and> (\<not> no_selection (getSelection pg) \<and> range_exception pg = Some e
       \<and> (t = HTML \<or> t = MARKDOWN) \<longrightarrow>
       captureHtmlSelection False True pg = Inl e
       \<and> captureMarkdownSelection False pg = Inl e
       \<and> captureContent t st answer pg =
           Inr (None, if st then [ShowCustomToast ''Capture failed''] else []))
   \<and> (document_exception pg = Some e \<longrightarrow>
       result_of (captureContent FULLPAGE st answer pg) = None)
   \<and> (answer = NoAnswer \<or> answer = PlatformError e \<longrightarrow>
       result_of (captureContent SCREENSHOT st answer pg) = None)"
proof -
  have a: "\<not> isl (captureContent t st answer pg)" by (rule captureContent_returns)
  have b: "(getSelection pg = None \<or>
        (\<exists>sel. getSelection pg = Some sel \<and>
               (rangeCount sel = 0 \<or> list_all js_space (sel_toString sel))))
       \<and> (t = TEXT \<or> t = HTML \<or> t = MARKDOWN) \<longrightarrow>
       captureContent t st answer pg =
         Inr (None, if st then [ShowCustomToast (''No '' @ CaptureType_value t @ '' content captured'')]
                    else [])"
  proof
    assume h: "(getSelection pg = None \<or>
        (\<exists>sel. getSelection pg = Some sel \<and>
               (rangeCount sel = 0 \<or> list_all js_space (sel_toString sel))))
       \<and> (t = TEXT \<or> t = HTML \<or> t = MARKDOWN)"
    then have ns: "no_selection (getSelection pg)" using no_selection_whitespace by blast
    from h have "t = TEXT \<or> t = HTML \<or> t = MARKDOWN" by blast
    then show "captureContent t st answer pg =
         Inr (None, if st then [ShowCustomToast (''No '' @ CaptureType_value t @ '' content captured'')]
                    else [])"
      using ns
      by (auto simp: captureContent_def try_catch_def captureTextSelection_none
          captureHtmlSelection_none captureMarkdownSelection_none)
  qed
  have c: "\<not> no_selection (getSelection pg) \<and> range_exception pg = Some e
       \<and> (t = HTML \<or> t = MARKDOWN) \<longrightarrow>
       captureHtmlSelection False True pg = Inl e
       \<and> captureMarkdownSelection False pg = Inl e
       \<and> captureContent t st answer pg =
           Inr (None, if st then [ShowCustomToast ''Capture failed''] else [])"
    by (auto simp: captureContent_def try_catch_def captureHtmlSelection_throws
        captureMarkdownSelection_throws)
  have d: "document_exception pg = Some e \<longrightarrow>
       result_of (captureContent FULLPAGE st answer pg) = None"
    by (simp add: captureContent_def try_catch_def captureFullPage_def result_of_def)
  have f: "answer = NoAnswer \<or> answer = PlatformError e \<longrightarrow>
       result_of (captureContent SCREENSHOT st answer pg) = None"
    by (auto simp: captureContent_def try_catch_def captureScreenshot_def result_of_def)
  from a b c d f show ?thesis by (intro conjI)
qed

theorem captureContent_never_throws_witness:
  "captureContent HTML True NoAnswer
     \<lparr>getSelection = Some \<lparr>rangeCount = 1, sel_toString = ''Hello world'',
         cloneContents = [TextNode ''Hello world''], sel_innerHTML = ''Hello world''\<rparr>,
      document_title = ''Test Page'', location_href = ''https://example.com'',
      pageMetadata = [], selectionStyles = [], date_now = 1000,
      range_exception = Some ''InvalidStateError'',
      querySelector = (\<lambda>q. None), documentElement_outerHTML = ''<html></html>'',
      document_exception = None\<rparr>
   = Inr (None, [ShowCustomToast ''Capture failed''])"
proof -
  let ?pg = "\<lparr>getSelection = Some \<lparr>rangeCount = 1, sel_toString = ''Hello world'',
         cloneContents = [TextNode ''Hello world''], sel_innerHTML = ''Hello world''\<rparr>,
      document_title = ''Test Page'', location_href = ''https://example.com'',
      pageMetadata = [], selectionStyles = [], date_now = 1000,
      range_exception = Some ''InvalidStateError'',
      querySelector = (\<lambda>q. None), documentElement_outerHTML = ''<html></html>'',
      document_exception = None\<rparr>"
  have h: "\<not> no_selection (getSelection ?pg) \<and> range_exception ?pg = Some ''InvalidStateError''
       \<and> (HTML = HTML \<or> HTML = MARKDOWN)"
    by (simp add: no_selection_def trim_def js_space_def)
  show ?thesis
    using captureContent_never_throws[of HTML True NoAnswer ?pg "''InvalidStateError''"] h
    by simp
qed

text \<open>
  What \<open>captureMarkdownSelection\<close> does on a page with a selection: no toast from the
  HTML path, the content is \<open>htmlToMarkdown\<close> of the HTML capture's content, and the
  messages sent are the intermediate HTML capture followed, when notifications are on,
  by the Markdown capture.
\<close>

lemma captureMarkdownSelection_effects:
  assumes "getSelection pg = Some sel" "\<not> no_selection (getSelection pg)" "range_exception pg = None"
  shows "map cc_type (sent (effects_of (captureMarkdownSelection sn pg))) =
           HTML # (if sn then [MARKDOWN] else [])"
    and "toasts (effects_of (captureMarkdownSelection sn pg)) =
           (if sn then [ShowCaptureToast ''Markdown''] else [])"
    and "map_option cc_content (result_of (captureMarkdownSelection sn pg)) =
           Some (htmlToMarkdown (sel_innerHTML sel))"
  using assms
  by (auto simp: captureMarkdownSelection_def captureHtmlSelection_def no_selection_def Let_def
      effects_of_def result_of_def sent_def toasts_def)

text \<open>
  C7.  On a page where "Hello world" is selected, \<open>captureMarkdownSelection\<close> with
  notifications off sends one message, the intermediate HTML capture; with notifications
  on it sends that message and then the Markdown capture.  It returns null when nothing
  is selected.
\<close>

theorem captureMarkdownSelection_sends_html:
  "map cc_type (sent (effects_of (captureMarkdownSelection False
     \<lparr>getSelection = Some \<lparr>rangeCount = 1, sel_toString = ''Hello world'',
         cloneContents = [TextNode ''Hello world''], sel_innerHTML = ''Hello world''\<rparr>,
      document_title = ''Test Page'', location_href = ''https://example.com'',
      pageMetadata = [], selectionStyles = [], date_now = 1000,
      range_exception = None,
      querySelector = (\<lambda>q. None), documentElement_outerHTML = ''<html></html>'',
      document_exception = None\<rparr>))) = [HTML]
   \<and> map cc_type (sent (effects_of (captureMarkdownSelection True
     \<lparr>getSelection = Some \<lparr>rangeCount = 1, sel_toString = ''Hello world'',
         cloneContents = [TextNode ''Hello world''], sel_innerHTML = ''Hello world''\<rparr>,
      document_title = ''Test Page'', location_href = ''https://example.com'',
      pageMetadata = [], selectionStyles = [], date_now = 1000,
      range_exception = None,
      querySelector = (\<lambda>q. None), documentElement_outerHTML = ''<html></html>'',
      document_exception = None\<rparr>))) = [HTML, MARKDOWN]
   \<and> map cc_type (sent (effects_of (captureContent MARKDOWN True NoAnswer
     \<lparr>getSelection = Some \<lparr>rangeCount = 1, sel_toString = ''Hello world'',
         cloneContents = [TextNode ''Hello world''], sel_innerHTML = ''Hello world''\<rparr>,
      document_title = ''Test Page'', location_href = ''https://example.com'',
      pageMetadata = [], selectionStyles = [], date_now = 1000,
      range_exception = None,
      querySelector = (\<lambda>q. None), documentElement_outerHTML = ''<html></html>'',
      document_exception = None\<rparr>))) = [HTML, MARKDOWN]"
  by (simp add: captureMarkdownSelection_def captureHtmlSelection_def captureContent_def
      try_catch_def after_capture_def Let_def effects_of_def sent_def trim_def js_space_def)

subsection \<open>Screenshot requests\<close>

text \<open>
  The guard, were it called: a call less than 1000 ms after the last accepted one is
  ignored; a later call while the flag is set is answered with "already in progress"; an
  accepted call sets the flag, records the time and arms a timer for 15000 ms later; when
  that timer fires the attempt is reported as timed out and the flag is cleared.
\<close>

lemma handleScreenshotCapture_guard:
  "(now - lastScreenshotTime s < 1000 \<longrightarrow> handleScreenshotCapture now s = (IgnoredInCooldown, s))
   \<and> (now - lastScreenshotTime s \<ge> 1000 \<and> activeScreenshotCapture s \<longrightarrow>
        handleScreenshotCapture now s = (AlreadyInProgress, s))
   \<and> (fst (handleScreenshotCapture now s) = Started k \<longrightarrow>
        \<not> activeScreenshotCapture s \<and> now - lastScreenshotTime s \<ge> 1000
        \<and> activeScreenshotCapture (snd (handleScreenshotCapture now s))
        \<and> lastScreenshotTime (snd (handleScreenshotCapture now s)) = now
        \<and> armed (snd (handleScreenshotCapture now s)) = (k, now + 15000) # armed s)
   \<and> (i \<in> fst ` set (armed s) \<longrightarrow>
        fst (timer_fires i s) = TimedOut i
        \<and> \<not> activeScreenshotCapture (snd (timer_fires i s))
        \<and> awaiting (snd (timer_fires i s)) = awaiting s)"
proof -
  have a: "now - lastScreenshotTime s < 1000 \<longrightarrow> handleScreenshotCapture now s = (IgnoredInCooldown, s)"
    by (simp add: handleScreenshotCapture_def SCREENSHOT_COOLDOWN_def)
  have b: "now - lastScreenshotTime s \<ge> 1000 \<and> activeScreenshotCapture s \<longrightarrow>
        handleScreenshotCapture now s = (AlreadyInProgress, s)"
    by (simp add: handleScreenshotCapture_def SCREENSHOT_COOLDOWN_def)
  have c: "fst (handleScreenshotCapture now s) = Started k \<longrightarrow>
        \<not> activeScreenshotCapture s \<and> now - lastScreenshotTime s \<ge> 1000
        \<and> activeScreenshotCapture (snd (handleScreenshotCapture now s))
        \<and> lastScreenshotTime (snd (handleScreenshotCapture now s)) = now
        \<and> armed (snd (handleScreenshotCapture now s)) = (k, now + 15000) # armed s"
    by (auto simp: handleScreenshotCapture_def SCREENSHOT_COOLDOWN_def Let_def split: if_splits)
  have d: "i \<in> fst ` set (armed s) \<longrightarrow>
        fst (timer_fires i s) = TimedOut i
        \<and> \<not> activeScreenshotCapture (snd (timer_fires i s))
        \<and> awaiting (snd (timer_fires i s)) = awaiting s"
    by (simp add: timer_fires_def)
  from a b c d show ?thesis by (intro conjI)
qed

text \<open>Of two calls of the guard 500 ms apart the second is ignored by the cooldown,
  which is tested before the flag.\<close>

lemma guard_two_calls_500ms:
  "fst (shot_run [HandlerCalled 1000, HandlerCalled 1500] shot_initial)
     = [Started 1, IgnoredInCooldown]"
  by (simp add: shot_initial_def handleScreenshotCapture_def SCREENSHOT_COOLDOWN_def Let_def)

text \<open>
  When a capture settles after its own timer has fired, the \<open>finally\<close> block resets the
  flag of the attempt that was started in between, and a third call is accepted while
  the second is still armed.
\<close>

lemma late_result_run:
  "fst (shot_run [HandlerCalled 1000, TimerFires 1, HandlerCalled 17000, CaptureSettles 1,
                  HandlerCalled 18000] shot_initial)
     = [Started 1, TimedOut 1, Started 2, Settled 1, Started 3]
   \<and> map fst (armed (snd (shot_run
        [HandlerCalled 1000, TimerFires 1, HandlerCalled 17000, CaptureSettles 1,
         HandlerCalled 18000] shot_initial))) = [3, 2]"
  by (simp add: shot_initial_def handleScreenshotCapture_def timer_fires_def
      capture_settles_def SCREENSHOT_COOLDOWN_def Let_def)

lemma start_captures_screenshot:
  "start_captures now [(SCREENSHOT, b)] p =
     ([AttemptStarted (attempts_started p + 1)],
      p\<lparr>in_flight := (attempts_started p + 1, now + 15000) # in_flight p,
        attempts_started := attempts_started p + 1\<rparr>)"
  by (simp add: Let_def)

lemma shortcut_P:
  "handleKeyboardShortcut \<lparr>ctrlKey = True, shiftKey = True, event_key = ''P''\<rparr>
     = [(SCREENSHOT, True)]"
  by (simp add: handleKeyboardShortcut_def toLowerCase_def ascii_lower_def)

lemma request_screenshot:
  "content_onMessage \<lparr>messageType = requestCapture, sender = Some sidePanel,
       content = Some ''screenshot'', metadata = None\<rparr> = [(SCREENSHOT, True)]"
  by (simp add: content_onMessage_def)

text \<open>
  C6.  The triggers of a screenshot do not go through the guard.  The shortcut
  Ctrl+Shift+P and a \<open>requestCapture\<close> message for a screenshot start an attempt in every
  state, whatever the flag and the time of the last attempt, and leave the variables of
  the guard as they are.  Two shortcuts, or two messages, 500 ms apart start two attempts,
  both in flight at once; no request is rejected.  The third part of the claim holds: an
  attempt the platform never answers is resolved by its own timer, with the failure
  notification and the result null.
\<close>

theorem screenshot_triggers_unguarded:
  "pipeline_step pg (KeyDown \<lparr>ctrlKey = True, shiftKey = True, event_key = ''P''\<rparr> now) p
     = ([AttemptStarted (attempts_started p + 1)],
        p\<lparr>in_flight := (attempts_started p + 1, now + 15000) # in_flight p,
          attempts_started := attempts_started p + 1\<rparr>)
   \<and> pipeline_step pg (RuntimeMessage \<lparr>messageType = requestCapture, sender = Some sidePanel,
         content = Some ''screenshot'', metadata = None\<rparr> now) p
     = ([AttemptStarted (attempts_started p + 1)],
        p\<lparr>in_flight := (attempts_started p + 1, now + 15000) # in_flight p,
          attempts_started := attempts_started p + 1\<rparr>)
   \<and> pipeline_run pg
        [KeyDown \<lparr>ctrlKey = True, shiftKey = True, event_key = ''P''\<rparr> 1000,
         KeyDown \<lparr>ctrlKey = True, shiftKey = True, event_key = ''P''\<rparr> 1500] pipeline_initial
     = ([[AttemptStarted 1], [AttemptStarted 2]],
        \<lparr>guard = shot_initial, in_flight = [(2, 16500), (1, 16000)], attempts_started = 2\<rparr>)
   \<and> pipeline_run pg
        [RuntimeMessage \<lparr>messageType = requestCapture, sender = Some sidePanel,
           content = Some ''screenshot'', metadata = None\<rparr> 1000,
         RuntimeMessage \<lparr>messageType = requestCapture, sender = Some sidePanel,
           content = Some ''screenshot'', metadata = None\<rparr> 1500] pipeline_initial
     = ([[AttemptStarted 1], [AttemptStarted 2]],
        \<lparr>guard = shot_initial, in_flight = [(2, 16500), (1, 16000)], attempts_started = 2\<rparr>)
   \<and> pipeline_run pg
        [KeyDown \<lparr>ctrlKey = True, shiftKey = True, event_key = ''p''\<rparr> 1000,
         AttemptResolves 1 NoAnswer] pipeline_initial
     = ([[AttemptStarted 1],
         [AttemptResolved 1 None [ShowToast ''Screenshot Capture Failed: The operation timed out'']]],
        \<lparr>guard = shot_initial, in_flight = [], attempts_started = 1\<rparr>)"
proof -
  have a: "pipeline_step pg (KeyDown \<lparr>ctrlKey = True, shiftKey = True, event_key = ''P''\<rparr> now) p
     = ([AttemptStarted (attempts_started p + 1)],
        p\<lparr>in_flight := (attempts_started p + 1, now + 15000) # in_flight p,
          attempts_started := attempts_started p + 1\<rparr>)"
    by (simp only: pipeline_step.simps shortcut_P start_captures_screenshot)
  have b: "pipeline_step pg (RuntimeMessage \<lparr>messageType = requestCapture, sender = Some sidePanel,
         content = Some ''screenshot'', metadata = None\<rparr> now) p
     = ([AttemptStarted (attempts_started p + 1)],
        p\<lparr>in_flight := (attempts_started p + 1, now + 15000) # in_flight p,
          attempts_started := attempts_started p + 1\<rparr>)"
    by (simp only: pipeline_step.simps request_screenshot start_captures_screenshot)
  have c: "pipeline_run pg
        [KeyDown \<lparr>ctrlKey = True, shiftKey = True, event_key = ''P''\<rparr> 1000,
         KeyDown \<lparr>ctrlKey = True, shiftKey = True, event_key = ''P''\<rparr> 1500] pipeline_initial
     = ([[AttemptStarted 1], [AttemptStarted 2]],
        \<lparr>guard = shot_initial, in_flight = [(2, 16500), (1, 16000)], attempts_started = 2\<rparr>)"
    by (simp add: shortcut_P pipeline_initial_def Let_def)
  have d: "pipeline_run pg
        [RuntimeMessage \<lparr>messageType = requestCapture, sender = Some sidePanel,
           content = Some ''screenshot'', metadata = None\<rparr> 1000,
         RuntimeMessage \<lparr>messageType = requestCapture, sender = Some sidePanel,
           content = Some ''screenshot'', metadata = None\<rparr> 1500] pipeline_initial
     = ([[AttemptStarted 1], [AttemptStarted 2]],
        \<lparr>guard = shot_initial, in_flight = [(2, 16500), (1, 16000)], attempts_started = 2\<rparr>)"
    by (simp add: request_screenshot pipeline_initial_def Let_def)
  have e: "pipeline_run pg
        [KeyDown \<lparr>ctrlKey = True, shiftKey = True, event_key = ''p''\<rparr> 1000,
         AttemptResolves 1 NoAnswer] pipeline_initial
     = ([[AttemptStarted 1],
         [AttemptResolved 1 None [ShowToast ''Screenshot Capture Failed: The operation timed out'']]],
        \<lparr>guard = shot_initial, in_flight = [], attempts_started = 1\<rparr>)"
    by (simp add: handleKeyboardShortcut_def toLowerCase_def ascii_lower_def pipeline_initial_def
        Let_def attempt_resolves_def captureContent_def captureScreenshot_def try_catch_def
        result_of_def effects_of_def)
  from a b c d e show ?thesis by (intro conjI)
qed

subsection \<open>Background listener and replay\<close>

lemma onMessage_processed_noop:
  "processedMessages s (generateMessageId message) \<noteq> None \<Longrightarrow>
     onMessage message now draw1 draw2 s = (s, [])"
  by (simp add: onMessage_def isMessageProcessed_def Let_def)

lemma cleanup_keeps_fresh:
  "processed key = Some ts \<Longrightarrow> now - ts \<le> MESSAGE_EXPIRY_TIME \<Longrightarrow>
     cleanupProcessedMessages now processed key = Some ts"
  by (simp add: cleanupProcessedMessages_def Let_def)

lemma onMessage_marks_processed:
  assumes "processedMessages s (generateMessageId message) = None"
  shows "processedMessages (fst (onMessage message now draw1 draw2 s)) (generateMessageId message)
           = Some now"
  using assms
  by (auto simp: onMessage_def isMessageProcessed_def Let_def cleanupProcessedMessages_def
      ensurePanelOpenAndSendMessage_def storeCapture_issue_def MESSAGE_EXPIRY_TIME_def
      split: prod.splits if_splits)

lemma onMessage_keeps_processed:
  assumes "processedMessages s key = Some ts" "now' - ts \<le> MESSAGE_EXPIRY_TIME"
  shows "processedMessages (fst (onMessage other now' draw1 draw2 s)) key = Some ts"
proof (cases "processedMessages s (generateMessageId other) \<noteq> None")
  case True
  then show ?thesis using assms(1) by (simp add: onMessage_processed_noop)
next
  case False
  then have none: "processedMessages s (generateMessageId other) = None" by simp
  then have ne: "generateMessageId other \<noteq> key" using assms(1) by auto
  let ?p1 = "(processedMessages s)(generateMessageId other \<mapsto> now')"
  have k1: "?p1 key = Some ts" using ne assms(1) by simp
  have k2: "cleanupProcessedMessages now' ?p1 key = Some ts"
    using k1 assms(2) by (rule cleanup_keeps_fresh)
  let ?p2 = "\<lambda>p. p(generateMessageId other \<mapsto> now')"
  have k3: "(?p2 (cleanupProcessedMessages now' ?p1)) key = Some ts" using ne k2 by simp
  have k4: "cleanupProcessedMessages now' (?p2 (cleanupProcessedMessages now' ?p1)) key = Some ts"
    using k3 assms(2) by (rule cleanup_keeps_fresh)
  have k5: "cleanupProcessedMessages now' (?p2 ?p1) key = Some ts"
    using k1 assms(2) by (simp add: cleanup_keeps_fresh)
  show ?thesis
    using none k1 k2 k3 k4 k5
    by (auto simp: onMessage_def isMessageProcessed_def Let_def
        ensurePanelOpenAndSendMessage_def storeCapture_issue_def
        split: prod.splits if_splits)
qed

lemma bg_run_Cons_fst:
  "fst (bg_run (e # es) s) = fst (bg_run es (fst (bg_step e s)))"
  by (simp add: case_prod_unfold Let_def)

text \<open>
  A message id that was marked as processed at \<open>ts\<close> stays marked through every run whose
  messages arrive no later than \<open>ts + 10000\<close>, so the same message is rejected again
  throughout that time.
\<close>

lemma processed_survives_run:
  assumes "processedMessages s key = Some ts"
    and "list_all (\<lambda>e. case e of Message other now' d1 d2 \<Rightarrow> now' - ts \<le> MESSAGE_EXPIRY_TIME
                         | _ \<Rightarrow> True) es"
  shows "processedMessages (fst (bg_run es s)) key = Some ts"
  using assms
proof (induction es arbitrary: s)
  case Nil
  then show ?case by simp
next
  case (Cons e es)
  have "processedMessages (fst (bg_step e s)) key = Some ts"
  proof (cases e)
    case (Message other now' d1 d2)
    with Cons.prems show ?thesis by (simp add: onMessage_keeps_processed)
  next
    case (GetSettles ok)
    with Cons.prems show ?thesis by (simp add: get_settles_def split: list.splits)
  next
    case (SetSettles ok)
    with Cons.prems show ?thesis by (simp add: set_settles_def split: list.splits)
  qed
  moreover from Cons.prems have "list_all (\<lambda>e. case e of Message other now' d1 d2 \<Rightarrow> now' - ts \<le> MESSAGE_EXPIRY_TIME
                         | _ \<Rightarrow> True) es" by simp
  ultimately have "processedMessages (fst (bg_run es (fst (bg_step e s)))) key = Some ts"
    by (rule Cons.IH)
  then show ?case by (simp only: bg_run_Cons_fst)
qed

lemma redelivery_within_expiry_rejected:
  assumes "processedMessages s (generateMessageId message) = None"
    and "list_all (\<lambda>e. case e of Message other now' d1 d2 \<Rightarrow> now' - t1 \<le> MESSAGE_EXPIRY_TIME
                         | _ \<Rightarrow> True) es"
  shows "onMessage message t2 d1 d2 (fst (bg_run es (fst (onMessage message t1 d3 d4 s))))
           = (fst (bg_run es (fst (onMessage message t1 d3 d4 s))), [])"
proof -
  have "processedMessages (fst (onMessage message t1 d3 d4 s)) (generateMessageId message) = Some t1"
    using assms(1) by (rule onMessage_marks_processed)
  then have "processedMessages (fst (bg_run es (fst (onMessage message t1 d3 d4 s))))
               (generateMessageId message) = Some t1"
    using assms(2) by (rule processed_survives_run)
  then show ?thesis by (simp add: onMessage_processed_noop)
qed

lemma sendAll_replays_memory:
  "length (sendAllCapturesToSidePanel s) = length (recentCaptures (store s))
   \<and> (\<forall>i < length (recentCaptures (store s)).
        sendAllCapturesToSidePanel s ! i = SendToSidePanel (i * 100) (recentCaptures (store s) ! i))"
  by (simp add: sendAllCapturesToSidePanel_def nth_enumerate_eq)


lemmas bg_eval =
  bg_initial_def empty_store_def onMessage_def isMessageProcessed_def generateMessageId_def
  metadata_type_def strip_spaces_def js_space_def messageDeduplication_isDuplicate_def
  messageDeduplication_cleanup_def messageDeduplication_deduplicationWindow_def
  getMessageHash_def ensurePanelOpenAndSendMessage_def storeCapture_issue_def
  get_settles_def set_settles_def trimmedCaptures_def existingCaptures_def
  fallback_unshift_def MAX_RECENT_CAPTURES_def sendAllCapturesToSidePanel_def Let_def

text \<open>
  C2.  The same \<open>capturedSelection\<close> message is delivered at 1000 ms and again at 3000 ms.
  The second delivery changes nothing, but the first one has issued two appends of the
  record.  When the two read-modify-write cycles run one after the other the persisted
  list holds the record twice; when both reads are rejected the in-memory list holds it
  twice; only when both reads are answered before either write is the record there once.
\<close>

theorem capturedSelection_stored_twice:
  "storage (store (fst (bg_run
      [Message \<lparr>messageType = capturedSelection, sender = Some contentScript, content = Some ''The quick brown fox'', metadata = Some [(''type'', JString ''text'')]\<rparr> 1000 False False, Message \<lparr>messageType = capturedSelection, sender = Some contentScript, content = Some ''The quick brown fox'', metadata = Some [(''type'', JString ''text'')]\<rparr> 3000 False False,
       GetSettles True, SetSettles True, GetSettles True, SetSettles True] bg_initial)))
     = Some [\<lparr>messageType = capturedSelection, sender = Some contentScript, content = Some ''The quick brown fox'', metadata = Some [(''type'', JString ''text'')]\<rparr>, \<lparr>messageType = capturedSelection, sender = Some contentScript, content = Some ''The quick brown fox'', metadata = Some [(''type'', JString ''text'')]\<rparr>]
   \<and> recentCaptures (store (fst (bg_run
      [Message \<lparr>messageType = capturedSelection, sender = Some contentScript, content = Some ''The quick brown fox'', metadata = Some [(''type'', JString ''text'')]\<rparr> 1000 False False, Message \<lparr>messageType = capturedSelection, sender = Some contentScript, content = Some ''The quick brown fox'', metadata = Some [(''type'', JString ''text'')]\<rparr> 3000 False False,
       GetSettles False, GetSettles False] bg_initial)))
     = [\<lparr>messageType = capturedSelection, sender = Some contentScript, content = Some ''The quick brown fox'', metadata = Some [(''type'', JString ''text'')]\<rparr>, \<lparr>messageType = capturedSelection, sender = Some contentScript, content = Some ''The quick brown fox'', metadata = Some [(''type'', JString ''text'')]\<rparr>]
   \<and> storage (store (fst (bg_run
      [Message \<lparr>messageType = capturedSelection, sender = Some contentScript, content = Some ''The quick brown fox'', metadata = Some [(''type'', JString ''text'')]\<rparr> 1000 False False, Message \<lparr>messageType = capturedSelection, sender = Some contentScript, content = Some ''The quick brown fox'', metadata = Some [(''type'', JString ''text'')]\<rparr> 3000 False False,
       GetSettles True, GetSettles True, SetSettles True, SetSettles True] bg_initial)))
     = Some [\<lparr>messageType = capturedSelection, sender = Some contentScript, content = Some ''The quick brown fox'', metadata = Some [(''type'', JString ''text'')]\<rparr>]
   \<and> bg_run [Message \<lparr>messageType = capturedSelection, sender = Some contentScript, content = Some ''The quick brown fox'', metadata = Some [(''type'', JString ''text'')]\<rparr> 3000 False False] (fst (bg_run [Message \<lparr>messageType = capturedSelection, sender = Some contentScript, content = Some ''The quick brown fox'', metadata = Some [(''type'', JString ''text'')]\<rparr> 1000 False False] bg_initial))
     = (fst (bg_run [Message \<lparr>messageType = capturedSelection, sender = Some contentScript, content = Some ''The quick brown fox'', metadata = Some [(''type'', JString ''text'')]\<rparr> 1000 False False] bg_initial), [])
   \<and> pending_gets (fst (bg_run [Message \<lparr>messageType = capturedSelection, sender = Some contentScript, content = Some ''The quick brown fox'', metadata = Some [(''type'', JString ''text'')]\<rparr> 1000 False False] bg_initial)) = [\<lparr>messageType = capturedSelection, sender = Some contentScript, content = Some ''The quick brown fox'', metadata = Some [(''type'', JString ''text'')]\<rparr>, \<lparr>messageType = capturedSelection, sender = Some contentScript, content = Some ''The quick brown fox'', metadata = Some [(''type'', JString ''text'')]\<rparr>]"
  by (simp add: bg_eval)

text \<open>
  C9.  A capture arrives while the panel is closed and is persisted; when the panel then
  reports that it has loaded, the background sends nothing, although the persisted list
  holds the capture: the replay reads the in-memory array, which only receives the
  captures whose storage read failed.
\<close>

theorem persisted_capture_not_replayed:
  "snd (bg_run
      [Message \<lparr>messageType = capturedSelection, sender = Some contentScript, content = Some ''The quick brown fox'', metadata = Some [(''type'', JString ''text'')]\<rparr> 1000 False False, GetSettles True, SetSettles True,
       GetSettles True, SetSettles True, Message \<lparr>messageType = sidePanelLoaded, sender = Some sidePanel, content = None, metadata = None\<rparr> 5000 False False] bg_initial) = []
   \<and> storage (store (fst (bg_run
      [Message \<lparr>messageType = capturedSelection, sender = Some contentScript, content = Some ''The quick brown fox'', metadata = Some [(''type'', JString ''text'')]\<rparr> 1000 False False, GetSettles True, SetSettles True,
       GetSettles True, SetSettles True, Message \<lparr>messageType = sidePanelLoaded, sender = Some sidePanel, content = None, metadata = None\<rparr> 5000 False False] bg_initial)))
     = Some [\<lparr>messageType = capturedSelection, sender = Some contentScript, content = Some ''The quick brown fox'', metadata = Some [(''type'', JString ''text'')]\<rparr>, \<lparr>messageType = capturedSelection, sender = Some contentScript, content = Some ''The quick brown fox'', metadata = Some [(''type'', JString ''text'')]\<rparr>]
   \<and> snd (bg_run
      [Message \<lparr>messageType = capturedSelection, sender = Some contentScript, content = Some ''The quick brown fox'', metadata = Some [(''type'', JString ''text'')]\<rparr> 1000 False False, GetSettles False, GetSettles False,
       Message \<lparr>messageType = sidePanelLoaded, sender = Some sidePanel, content = None, metadata = None\<rparr> 5000 False False] bg_initial)
     = [SendToSidePanel 0 \<lparr>messageType = capturedSelection, sender = Some contentScript, content = Some ''The quick brown fox'', metadata = Some [(''type'', JString ''text'')]\<rparr>, SendToSidePanel 100 \<lparr>messageType = capturedSelection, sender = Some contentScript, content = Some ''The quick brown fox'', metadata = Some [(''type'', JString ''text'')]\<rparr>]"
  by (simp add: bg_eval enumerate_eq_zip upt_rec)

subsection \<open>Retry of outbound sends\<close>

declare attemptSend.simps [simp del]

lemma attemptSend_last:
  "attemptSend c result 2 2 =
     Attempt (capture_message c) #
       (case result 2 of
          Resolves \<Rightarrow> []
        | Rejects err \<Rightarrow> [SendFailedToast (''Failed to send captured content: '' @ err)]
        | Throws err \<Rightarrow> [SendFailedToast (''Error sending content: '' @ err)])"
  by (subst attemptSend.simps) (simp split: send_result.splits)

lemma attemptSend_second:
  "attemptSend c result (Suc 0) 2 =
     Attempt (capture_message c) #
       (case result (Suc 0) of
          Resolves \<Rightarrow> []
        | _ \<Rightarrow> Delay 400 # attemptSend c result 2 2)"
proof -
  have two: "Suc (Suc 0) = 2" by simp
  show ?thesis
    by (subst attemptSend.simps) (simp add: two split: send_result.splits)
qed

lemma attemptSend_first:
  "attemptSend c result 0 2 =
     Attempt (capture_message c) #
       (case result 0 of
          Resolves \<Rightarrow> []
        | _ \<Rightarrow> Delay 200 # attemptSend c result (Suc 0) 2)"
  by (subst attemptSend.simps) (simp split: send_result.splits)

lemmas sendCapturedContent_unfold =
  sendCapturedContent_def attemptSend_first attemptSend_second attemptSend_last

lemma sendCapturedContent_attempts:
  "attempts (sendCapturedContent c result) =
     replicate (length (attempts (sendCapturedContent c result))) (capture_message c)
   \<and> length (attempts (sendCapturedContent c result)) \<le> 3
   \<and> delays (sendCapturedContent c result) =
       map (\<lambda>k. 200 * k) [1..<length (attempts (sendCapturedContent c result))]"
  by (cases "result 0"; cases "result 1"; cases "result 2")
     (simp_all add: sendCapturedContent_unfold attempts_def delays_def upt_rec)

lemma sendCapturedContent_all_fail:
  assumes "result 0 \<noteq> Resolves" "result 1 \<noteq> Resolves" "result 2 \<noteq> Resolves"
  shows "attempts (sendCapturedContent c result) =
           [capture_message c, capture_message c, capture_message c]"
    and "delays (sendCapturedContent c result) = [200, 400]"
    and "\<exists>t. last (sendCapturedContent c result) = SendFailedToast t"
  using assms
  by (cases "result 0"; cases "result 1"; cases "result 2";
      simp add: sendCapturedContent_unfold attempts_def delays_def)+

text \<open>
  C8 (as amended).  \<open>sendCapturedContent\<close> sends the captured-content message
  (\<open>capturedSelection\<close>); an attempt that fails, by rejection or by a thrown exception and
  whatever the message of the error, is followed after 200 ms times the attempt number by
  another attempt, at most twice (three attempts, delays 200 and 400); after the third
  failure a failure toast is shown.  Every attempt, the first and the retries, carries the
  same \<open>capturedSelection\<close> message.  Once the listener of the background has accepted
  that message at a time \<open>t1\<close>, every later delivery of it is rejected as already
  processed, with no change of the background's state and nothing sent to the panel, as
  long as no message has reached the background later than \<open>t1 + 10000\<close> in between.
\<close>

theorem sendCapturedContent_retry_policy:
  "attempts (sendCapturedContent c result) =
     replicate (length (attempts (sendCapturedContent c result))) (capture_message c)
   \<and> messageType (capture_message c) = capturedSelection
   \<and> length (attempts (sendCapturedContent c result)) \<le> 3
   \<and> delays (sendCapturedContent c result) =
       map (\<lambda>k. 200 * k) [1..<length (attempts (sendCapturedContent c result))]
   \<and> (result 0 = Resolves \<longrightarrow> sendCapturedContent c result = [Attempt (capture_message c)])
   \<and> (result 0 \<noteq> Resolves \<and> result 1 \<noteq> Resolves \<and> result 2 \<noteq> Resolves \<longrightarrow>
        attempts (sendCapturedContent c result) =
           [capture_message c, capture_message c, capture_message c]
        \<and> delays (sendCapturedContent c result) = [200, 400]
        \<and> (\<exists>t. last (sendCapturedContent c result) = SendFailedToast t))
   \<and> (processedMessages s (generateMessageId (capture_message c)) = None
        \<and> list_all (\<lambda>e. case e of Message other now' d1 d2 \<Rightarrow> now' - t1 \<le> 10000 | _ \<Rightarrow> True) es
       \<longrightarrow> onMessage (capture_message c) t2 d1 d2
              (fst (bg_run es (fst (onMessage (capture_message c) t1 d3 d4 s))))
            = (fst (bg_run es (fst (onMessage (capture_message c) t1 d3 d4 s))), []))"
proof -
  have a: "messageType (capture_message c) = capturedSelection"
    by (simp add: capture_message_def)
  have b: "result 0 = Resolves \<longrightarrow> sendCapturedContent c result = [Attempt (capture_message c)]"
    by (simp add: sendCapturedContent_unfold)
  have d: "result 0 \<noteq> Resolves \<and> result 1 \<noteq> Resolves \<and> result 2 \<noteq> Resolves \<longrightarrow>
        attempts (sendCapturedContent c result) =
           [capture_message c, capture_message c, capture_message c]
        \<and> delays (sendCapturedContent c result) = [200, 400]
        \<and> (\<exists>t. last (sendCapturedContent c result) = SendFailedToast t)"
    using sendCapturedContent_all_fail[of result c] by blast
  have e: "processedMessages s (generateMessageId (capture_message c)) = None
        \<and> list_all (\<lambda>e. case e of Message other now' d1 d2 \<Rightarrow> now' - t1 \<le> 10000 | _ \<Rightarrow> True) es
       \<longrightarrow> onMessage (capture_message c) t2 d1 d2
              (fst (bg_run es (fst (onMessage (capture_message c) t1 d3 d4 s))))
            = (fst (bg_run es (fst (onMessage (capture_message c) t1 d3 d4 s))), [])"
  proof
    assume h: "processedMessages s (generateMessageId (capture_message c)) = None
        \<and> list_all (\<lambda>e. case e of Message other now' d1 d2 \<Rightarrow> now' - t1 \<le> 10000 | _ \<Rightarrow> True) es"
    then have h1: "processedMessages s (generateMessageId (capture_message c)) = None" by simp
    from h have h2: "list_all (\<lambda>e. case e of Message other now' d1 d2 \<Rightarrow>
                        now' - t1 \<le> MESSAGE_EXPIRY_TIME | _ \<Rightarrow> True) es"
      unfolding MESSAGE_EXPIRY_TIME_def by (rule conjunct2)
    show "onMessage (capture_message c) t2 d1 d2
              (fst (bg_run es (fst (onMessage (capture_message c) t1 d3 d4 s))))
            = (fst (bg_run es (fst (onMessage (capture_message c) t1 d3 d4 s))), [])"
      using h1 h2 by (rule redelivery_within_expiry_rejected)
  qed
  from sendCapturedContent_attempts[of c result] a b d e show ?thesis by (intro conjI) blast+
qed

theorem sendCapturedContent_retry_policy_witness:
  "delays (sendCapturedContent
      \<lparr>cc_type = TEXT, cc_content = ''The quick brown fox'', cc_title = ''Test Page'',
       cc_url = ''https://example.com'', cc_timestamp = 0, cc_metadata = []\<rparr>
      (\<lambda>k. Rejects ''Could not establish connection. Receiving end does not exist.''))
   = [200, 400]
   \<and> onMessage (capture_message
        \<lparr>cc_type = TEXT, cc_content = ''The quick brown fox'', cc_title = ''Test Page'',
         cc_url = ''https://example.com'', cc_timestamp = 0, cc_metadata = []\<rparr>) 1600 False False
        (fst (bg_run [GetSettles True, SetSettles True]
           (fst (onMessage (capture_message
              \<lparr>cc_type = TEXT, cc_content = ''The quick brown fox'', cc_title = ''Test Page'',
               cc_url = ''https://example.com'', cc_timestamp = 0, cc_metadata = []\<rparr>)
              1000 False False bg_initial))))
     = (fst (bg_run [GetSettles True, SetSettles True]
           (fst (onMessage (capture_message
              \<lparr>cc_type = TEXT, cc_content = ''The quick brown fox'', cc_title = ''Test Page'',
               cc_url = ''https://example.com'', cc_timestamp = 0, cc_metadata = []\<rparr>)
              1000 False False bg_initial))), [])"
proof -
  let ?c = "\<lparr>cc_type = TEXT, cc_content = ''The quick brown fox'', cc_title = ''Test Page'',
       cc_url = ''https://example.com'', cc_timestamp = 0, cc_metadata = []\<rparr>"
  let ?r = "\<lambda>k::nat. Rejects ''Could not establish connection. Receiving end does not exist.''"
  have h: "?r 0 \<noteq> Resolves \<and> ?r 1 \<noteq> Resolves \<and> ?r 2 \<noteq> Resolves" by simp
  have g: "processedMessages bg_initial (generateMessageId (capture_message ?c)) = None
        \<and> list_all (\<lambda>e. case e of Message other now' d1 d2 \<Rightarrow> now' - 1000 \<le> 10000 | _ \<Rightarrow> True)
             [GetSettles True, SetSettles True]"
    by (simp add: bg_initial_def)
  show ?thesis
    using sendCapturedContent_retry_policy
            [of ?c ?r bg_initial 1000 "[GetSettles True, SetSettles True]" 1600 False False False False]
          h g
    by blast
qed

text \<open>
  The claim as stated fails: when every send is rejected with "no receiving end", the
  two messages sent again are of kind \<open>capturedSelection\<close> (capture reported), not
  \<open>requestCapture\<close> (capture requested).
\<close>

theorem retry_kind_counterexample:
  "retried_kinds (sendCapturedContent
      \<lparr>cc_type = TEXT, cc_content = ''The quick brown fox'', cc_title = ''Test Page'',
       cc_url = ''https://example.com'', cc_timestamp = 0, cc_metadata = []\<rparr>
      (\<lambda>k. Rejects ''Could not establish connection. Receiving end does not exist.''))
   = [capturedSelection, capturedSelection]
   \<and> capturedSelection \<noteq> requestCapture"
  by (simp add: sendCapturedContent_unfold retried_kinds_def attempts_def capture_message_def)

subsection \<open>HTML to Markdown\<close>

declare replace_global.simps [simp del]

lemma ascii_upper_literals:
  "ascii_upper (CHR ''a'') = CHR ''A''" "ascii_upper (CHR ''b'') = CHR ''B''"
  "ascii_upper (CHR ''c'') = CHR ''C''" "ascii_upper (CHR ''d'') = CHR ''D''"
  "ascii_upper (CHR ''e'') = CHR ''E''" "ascii_upper (CHR ''f'') = CHR ''F''"
  "ascii_upper (CHR ''g'') = CHR ''G''" "ascii_upper (CHR ''h'') = CHR ''H''"
  "ascii_upper (CHR ''i'') = CHR ''I''" "ascii_upper (CHR ''j'') = CHR ''J''"
  "ascii_upper (CHR ''k'') = CHR ''K''" "ascii_upper (CHR ''l'') = CHR ''L''"
  "ascii_upper (CHR ''m'') = CHR ''M''" "ascii_upper (CHR ''n'') = CHR ''N''"
  "ascii_upper (CHR ''o'') = CHR ''O''" "ascii_upper (CHR ''p'') = CHR ''P''"
  "ascii_upper (CHR ''q'') = CHR ''Q''" "ascii_upper (CHR ''r'') = CHR ''R''"
  "ascii_upper (CHR ''s'') = CHR ''S''" "ascii_upper (CHR ''t'') = CHR ''T''"
  "ascii_upper (CHR ''u'') = CHR ''U''" "ascii_upper (CHR ''v'') = CHR ''V''"
  "ascii_upper (CHR ''w'') = CHR ''W''" "ascii_upper (CHR ''x'') = CHR ''X''"
  "ascii_upper (CHR ''y'') = CHR ''Y''" "ascii_upper (CHR ''z'') = CHR ''Z''"
  "ascii_upper (CHR ''A'') = CHR ''A''" "ascii_upper (CHR ''B'') = CHR ''B''"
  "ascii_upper (CHR ''C'') = CHR ''C''" "ascii_upper (CHR ''D'') = CHR ''D''"
  "ascii_upper (CHR ''E'') = CHR ''E''" "ascii_upper (CHR ''F'') = CHR ''F''"
  "ascii_upper (CHR ''G'') = CHR ''G''" "ascii_upper (CHR ''H'') = CHR ''H''"
  "ascii_upper (CHR ''I'') = CHR ''I''" "ascii_upper (CHR ''J'') = CHR ''J''"
  "ascii_upper (CHR ''K'') = CHR ''K''" "ascii_upper (CHR ''L'') = CHR ''L''"
  "ascii_upper (CHR ''M'') = CHR ''M''" "ascii_upper (CHR ''N'') = CHR ''N''"
  "ascii_upper (CHR ''O'') = CHR ''O''" "ascii_upper (CHR ''P'') = CHR ''P''"
  "ascii_upper (CHR ''Q'') = CHR ''Q''" "ascii_upper (CHR ''R'') = CHR ''R''"
  "ascii_upper (CHR ''S'') = CHR ''S''" "ascii_upper (CHR ''T'') = CHR ''T''"
  "ascii_upper (CHR ''U'') = CHR ''U''" "ascii_upper (CHR ''V'') = CHR ''V''"
  "ascii_upper (CHR ''W'') = CHR ''W''" "ascii_upper (CHR ''X'') = CHR ''X''"
  "ascii_upper (CHR ''Y'') = CHR ''Y''" "ascii_upper (CHR ''Z'') = CHR ''Z''"
  "ascii_upper (CHR ''0'') = CHR ''0''" "ascii_upper (CHR ''1'') = CHR ''1''"
  "ascii_upper (CHR ''2'') = CHR ''2''" "ascii_upper (CHR ''3'') = CHR ''3''"
  "ascii_upper (CHR ''4'') = CHR ''4''" "ascii_upper (CHR ''5'') = CHR ''5''"
  "ascii_upper (CHR ''6'') = CHR ''6''" "ascii_upper (CHR ''7'') = CHR ''7''"
  "ascii_upper (CHR ''8'') = CHR ''8''" "ascii_upper (CHR ''9'') = CHR ''9''"
  "ascii_upper (CHR ''<'') = CHR ''<''" "ascii_upper (CHR ''>'') = CHR ''>''"
  "ascii_upper (CHR ''/'') = CHR ''/''" "ascii_upper (CHR ''='') = CHR ''=''"
  "ascii_upper (CHR '';'') = CHR '';''" "ascii_upper (CHR ''&'') = CHR ''&''"
  "ascii_upper (CHR ''#'') = CHR ''#''" "ascii_upper (CHR ''*'') = CHR ''*''"
  "ascii_upper (CHR ''['') = CHR ''[''" "ascii_upper (CHR '']'') = CHR '']''"
  "ascii_upper (CHR ''('') = CHR ''(''" "ascii_upper (CHR '')'') = CHR '')''"
  "ascii_upper (CHR '' '') = CHR '' ''" "ascii_upper (CHR ''.'') = CHR ''.''"
  "ascii_upper (CHR '':'') = CHR '':''" "ascii_upper (CHR ''-'') = CHR ''-''"
  "ascii_upper (CHR ''_'') = CHR ''_''" "ascii_upper (CHR 0x22) = CHR 0x22"
  "ascii_upper (CHR 0x0A) = CHR 0x0A"
  by (simp_all add: ascii_upper_def)

lemma ascii_upper_lt_iff: "ascii_upper c = CHR ''<'' \<longleftrightarrow> c = CHR ''<''"
  by (auto simp: ascii_upper_def split: if_splits)


lemma lit_i_anchor:
  "c \<noteq> CHR ''<'' \<Longrightarrow> lit_i (CHR ''<'' # ps) k (c # cs) = None"
  by (simp add: ascii_upper_literals ascii_upper_lt_iff)

lemma lit_anchor:
  "c \<noteq> p \<Longrightarrow> lit (p # ps) k (c # cs) = None"
  by simp







lemma entity_anchored:
  "c \<noteq> CHR ''&'' \<Longrightarrow> lit (CHR ''&'' # ps) k (c # cs) = None"
  by simp




































end
